theory Spec2Isabelle
  imports Main "HOL-Library.AList"
begin

section \<open>The RevenueCat webhook (supabase/functions/revenuecat-webhook/index.ts)\<close>

text \<open>
  A shallow embedding of the webhook handler: the request handler \<open>serve\<close>, the four
  permission handlers and the insights trigger. Everything the handler touches outside
  its own code (the environment variables, the \<open>user_permissions\<close> table behind the
  database client, the clock read by \<open>new Date()\<close>, the outbound \<open>fetch\<close>) is a field
  of the record \<open>world\<close>, passed in and returned updated.
\<close>

subsection \<open>Values\<close>

text \<open>
  An instant on the JavaScript time line. \<open>ISO ms\<close> stands for the string that
  \<open>new Date(ms).toISOString()\<close> returns; the conversion is injective on valid dates,
  so the instant is kept instead of its characters.
\<close>

datatype timestamp = ISO int

text \<open>The JSON values the handler stores in a metadata object.\<close>

datatype jval = JString string | JBool bool | JTime timestamp

text \<open>
  A JSON object: its properties in order. \<open>map_of\<close> reads a property and
  \<open>AList.update\<close> writes one the way an object literal does (an existing key keeps its
  place and takes the new value, a new key is appended).
\<close>

type_synonym obj = "(string \<times> jval) list"

text \<open>What a \<open>throw\<close> carries; the top-level \<open>catch\<close> only logs it.\<close>

datatype js_error = SyntaxError | TypeError | RangeError | Error string | StoreError string

subsection \<open>The incoming event and the request\<close>

text \<open>
  \<open>RequestPayload.event\<close>, with the fields the handler reads. The interface declares
  \<open>store\<close> a string and \<open>entitlement_ids\<close> an array, but the body is parsed JSON:
  \<open>None\<close> is a field that is absent, null or not of the declared type.
  \<open>expiration_at_ms\<close> is declared \<open>number | null\<close>.
\<close>

record event =
  ev_type :: string
  original_app_user_id :: string
  ev_product_id :: string
  entitlement_ids :: "string list option"
  environment :: string
  expiration_at_ms :: "int option"
  transaction_id :: string
  store :: "string option"

text \<open>
  The request body as \<open>await req.json()\<close> sees it: \<open>Malformed\<close> makes it reject,
  \<open>Envelope None\<close> is JSON without an \<open>event\<close> object.
\<close>

datatype body = Malformed | Envelope "event option"

record request =
  req_method :: string
  authorization :: "string option"
  payload :: body

record response =
  status :: nat
  headers :: "(string \<times> string) list"
  content :: "(string \<times> string) list option"

subsection \<open>The permission record and the world\<close>

text \<open>
  A row of \<open>user_permissions\<close>, with the columns the handler writes. A column that
  holds SQL NULL, or that the handler leaves \<open>undefined\<close> in a row it inserts, is
  \<open>None\<close>.
\<close>

record permission =
  profile_id :: string
  permission_id :: string
  active :: bool
  expires_at :: "timestamp option"
  product_id :: "string option"
  platform :: "string option"
  revenuecat_user_id :: string
  metadata :: "obj option"

datatype db_op = Select "string \<times> string" | Upsert permission

text \<open>What the awaited \<open>fetch\<close> does: it rejects, or it resolves to a response with
  its \<open>ok\<close> flag and whether its body parses as JSON.\<close>

datatype fetch_result = Rejected | Responded bool bool

datatype insights_outcome = CaughtError | NotOkLogged | Generated

record world =
  REVENUECAT_AUTH_HEADER :: "string option"
  SUPABASE_URL :: "string option"
  SUPABASE_SERVICE_ROLE_KEY :: "string option"
  user_permissions :: "string \<times> string \<Rightarrow> permission option"
  select_error :: "string option"
  upsert_error :: "string option"
  now :: "nat \<Rightarrow> timestamp"
  toLowerCase :: "string \<Rightarrow> string"
  fetch_result :: fetch_result
  db_trace :: "db_op list"
  insights_triggered :: "string list"
  fetch_calls :: "(string \<times> string \<times> string \<times> string) list"
  insights_log :: "insights_outcome list"

text \<open>
  The fields of \<open>world\<close>:
  \<^item> the three environment variables (\<open>None\<close> when unset);
  \<^item> \<open>user_permissions\<close>, the table, one row per (profile_id, permission_id);
  \<^item> \<open>select_error\<close> and \<open>upsert_error\<close>: the error the database reports to a
  read and to a write of this request, if any;
  \<^item> \<open>now k\<close>: what the k-th \<open>new Date().toISOString()\<close> of a handler returns;
  \<^item> \<open>toLowerCase\<close>: the runtime's \<open>String.prototype.toLowerCase\<close>, a parameter:
  the handler passes its result on and nothing here depends on what it computes;
  \<^item> \<open>fetch_result\<close>: what the insights endpoint does;
  \<^item> \<open>db_trace\<close>: the reads and writes sent to the table, in order;
  \<^item> \<open>insights_triggered\<close>: the user ids \<open>triggerPremiumInsightsGeneration\<close>
  was called with; \<open>fetch_calls\<close>: the outbound requests (url, Authorization header,
  userId, trigger); \<open>insights_log\<close>: how each call of the trigger ended.
\<close>

subsection \<open>The database client\<close>

text \<open>
  The client constructor is library code outside the sources
  (\<open>createClient\<close> of supabase-js 2.31.0). It throws an \<open>Error\<close> when it is given an
  empty URL (\<open>supabaseUrl is required.\<close>) or an empty key
  (\<open>supabaseKey is required.\<close>), and returns a client otherwise. \<open>None\<close> is a
  client returned.
\<close>

definition createClient :: "string \<Rightarrow> string \<Rightarrow> js_error option" where
  "createClient supabaseUrl supabaseKey =
     (if supabaseUrl = [] then Some (Error ''supabaseUrl is required.'')
      else if supabaseKey = [] then Some (Error ''supabaseKey is required.'')
      else None)"

text \<open>
  Modelled from the spec: the \<open>user_permissions\<close> table and the queries of the
  database client are not part of the sources. The spec keys the table
  by (user, entitlement) (\<open>at most one record per (user, entitlement) pair: writes are
  upserts keyed on that pair\<close>). A query resolves to an object with \<open>data\<close> and
  \<open>error\<close>, as the handlers destructure it; \<open>maybeSingle\<close> gives the row or null,
  and a query that fails gives its error and null data.
\<close>

definition select_permission ::
  "world \<Rightarrow> string \<times> string \<Rightarrow> (permission option \<times> string option) \<times> world" where
  "select_permission w k =
     (let w' = w\<lparr>db_trace := db_trace w @ [Select k]\<rparr>
      in case select_error w of
           Some e \<Rightarrow> ((None, Some e), w')
         | None \<Rightarrow> ((user_permissions w k, None), w'))"

text \<open>
  Modelled from the spec: \<open>upsert\<close> inserts the row or overwrites the row with the same
  key (\<open>a single atomic write that inserts a record if absent or overwrites it if
  present\<close>); a failed write changes nothing.
\<close>

definition upsert_permission :: "world \<Rightarrow> permission \<Rightarrow> string option \<times> world" where
  "upsert_permission w r =
     (let w' = w\<lparr>db_trace := db_trace w @ [Upsert r]\<rparr>
      in case upsert_error w of
           Some e \<Rightarrow> (Some e, w')
         | None \<Rightarrow>
             (None, w'\<lparr>user_permissions :=
                (user_permissions w')((profile_id r, permission_id r) \<mapsto> r)\<rparr>))"

subsection \<open>Dates\<close>

text \<open>
  \<open>Date.prototype.toISOString\<close>: a \<open>Date\<close> is its time value in milliseconds; beyond
  8.64e15 ms from the epoch the date is invalid and the call throws a RangeError.
\<close>

definition toISOString :: "int \<Rightarrow> js_error + timestamp" where
  "toISOString ms =
     (if - 8640000000000000 \<le> ms \<and> ms \<le> 8640000000000000 then Inr (ISO ms)
      else Inl RangeError)"

text \<open>\<open>expiresAt ? expiresAt.toISOString() : null\<close>, for \<open>expiresAt: Date | null\<close>.\<close>

definition expirationString :: "int option \<Rightarrow> js_error + timestamp option" where
  "expirationString expiresAt =
     (case expiresAt of
        None \<Rightarrow> Inr None
      | Some ms \<Rightarrow> (case toISOString ms of Inl e \<Rightarrow> Inl e | Inr t \<Rightarrow> Inr (Some t)))"

text \<open>\<open>expirationMs ? new Date(expirationMs) : null\<close>: null and 0 are falsy.\<close>

definition expirationDate :: "int option \<Rightarrow> int option" where
  "expirationDate expirationMs =
     (case expirationMs of None \<Rightarrow> None | Some ms \<Rightarrow> if ms = 0 then None else Some ms)"

subsection \<open>The insights trigger\<close>

text \<open>
  The trigger catches whatever it throws and returns nothing, and its caller does not
  await it: all it leaves are its calls, recorded in \<open>insights_triggered\<close>,
  \<open>fetch_calls\<close> and \<open>insights_log\<close>. \<open>SUPABASE_URL || ""\<close>: an unset or
  empty URL makes it throw before the call.
\<close>

definition triggerPremiumInsightsGeneration :: "world \<Rightarrow> string \<Rightarrow> world" where
  "triggerPremiumInsightsGeneration w userId =
     (let url = (case SUPABASE_URL w of None \<Rightarrow> [] | Some u \<Rightarrow> u);
          service_key = (case SUPABASE_SERVICE_ROLE_KEY w of None \<Rightarrow> [] | Some k \<Rightarrow> k);
          w1 = w\<lparr>insights_triggered := insights_triggered w @ [userId]\<rparr>
      in if url = [] then w1\<lparr>insights_log := insights_log w1 @ [CaughtError]\<rparr>
         else
           (let w2 = w1\<lparr>fetch_calls := fetch_calls w1 @
                  [(url @ ''/functions/v1/analyze-golf-performance'',
                    ''Bearer '' @ service_key, userId, ''purchase_webhook'')]\<rparr>
            in case fetch_result w of
                 Rejected \<Rightarrow> w2\<lparr>insights_log := insights_log w2 @ [CaughtError]\<rparr>
               | Responded ok parses \<Rightarrow>
                   if \<not> ok then w2\<lparr>insights_log := insights_log w2 @ [NotOkLogged]\<rparr>
                   else if parses then w2\<lparr>insights_log := insights_log w2 @ [Generated]\<rparr>
                   else w2\<lparr>insights_log := insights_log w2 @ [CaughtError]\<rparr>))"

subsection \<open>The permission handlers\<close>

text \<open>
  Each handler returns what it threw (\<open>None\<close> when it returned) and the world it leaves.
  \<open>handleSubscriptionActivation\<close> destructures only \<open>data\<close> from its read of the
  existing record (\<open>const { data: existingPermission } = ...\<close>); the three other
  handlers also take \<open>error: fetchError\<close> and rethrow it.
\<close>

definition handleSubscriptionActivation ::
  "world \<Rightarrow> string \<Rightarrow> string \<Rightarrow> string \<Rightarrow> string \<Rightarrow> int option \<Rightarrow> string \<Rightarrow> string
     \<Rightarrow> js_error option \<times> world" where
  "handleSubscriptionActivation w userId entitlementId productId platform' expiresAt
       transactionId environment' =
     (case expirationString expiresAt of
        Inl e \<Rightarrow> (Some e, w)
      | Inr expiration \<Rightarrow>
          (case select_permission w (userId, entitlementId) of
             ((existingPermission, unread_error), w1) \<Rightarrow>
               (let isNewSubscription =
                      (case existingPermission of None \<Rightarrow> True | Some p \<Rightarrow> \<not> active p)
                in case upsert_permission w1
                     \<lparr>profile_id = userId,
                      permission_id = entitlementId,
                      active = True,
                      expires_at = expiration,
                      product_id = Some productId,
                      platform = Some platform',
                      revenuecat_user_id = userId,
                      metadata = Some
                        [(''transaction_id'', JString transactionId),
                         (''environment'', JString environment'),
                         (''updated_at'', JTime (now w 0)),
                         (''status'', JString ''active''),
                         (''source'', JString ''revenuecat_webhook''),
                         (''event_processed_at'', JTime (now w 1))]\<rparr> of
                     (Some e, w2) \<Rightarrow> (Some (StoreError e), w2)
                   | (None, w2) \<Rightarrow>
                       if entitlementId = ''product_a'' \<and> isNewSubscription
                       then (None, triggerPremiumInsightsGeneration w2 userId)
                       else (None, w2))))"

text \<open>\<open>existingPermission?.metadata || {}\<close>\<close>

definition existingMetadata :: "permission option \<Rightarrow> obj" where
  "existingMetadata existingPermission =
     (case existingPermission of
        None \<Rightarrow> []
      | Some p \<Rightarrow> (case metadata p of None \<Rightarrow> [] | Some m \<Rightarrow> m))"

definition handleSubscriptionCancellation ::
  "world \<Rightarrow> string \<Rightarrow> string \<Rightarrow> int option \<Rightarrow> js_error option \<times> world" where
  "handleSubscriptionCancellation w userId entitlementId expiresAt =
     (case expirationString expiresAt of
        Inl e \<Rightarrow> (Some e, w)
      | Inr expiration \<Rightarrow>
          (case select_permission w (userId, entitlementId) of
             ((existingPermission, fetchError), w1) \<Rightarrow>
               (case fetchError of
                  Some err \<Rightarrow> (Some (StoreError err), w1)
                | None \<Rightarrow>
               (let updatedMetadata =
                      AList.update ''source'' (JString ''revenuecat_webhook'')
                        (AList.update ''cancelled_at'' (JTime (now w 0))
                          (AList.update ''status'' (JString ''cancelled'')
                            (existingMetadata existingPermission)))
                in case upsert_permission w1
                     \<lparr>profile_id = userId,
                      permission_id = entitlementId,
                      active = True,
                      expires_at = expiration,
                      product_id = (case existingPermission of None \<Rightarrow> None | Some p \<Rightarrow> product_id p),
                      platform = (case existingPermission of None \<Rightarrow> None | Some p \<Rightarrow> platform p),
                      revenuecat_user_id = userId,
                      metadata = Some updatedMetadata\<rparr> of
                     (Some e, w2) \<Rightarrow> (Some (StoreError e), w2)
                   | (None, w2) \<Rightarrow> (None, w2)))))"

definition handleSubscriptionExpiration ::
  "world \<Rightarrow> string \<Rightarrow> string \<Rightarrow> js_error option \<times> world" where
  "handleSubscriptionExpiration w userId entitlementId =
     (case select_permission w (userId, entitlementId) of
        ((existingPermission, fetchError), w1) \<Rightarrow>
          (case fetchError of
             Some err \<Rightarrow> (Some (StoreError err), w1)
           | None \<Rightarrow>
          (let updatedMetadata =
                 AList.update ''source'' (JString ''revenuecat_webhook'')
                   (AList.update ''expired_at'' (JTime (now w 0))
                     (AList.update ''status'' (JString ''expired'')
                       (existingMetadata existingPermission)))
           in case upsert_permission w1
                \<lparr>profile_id = userId,
                 permission_id = entitlementId,
                 active = False,
                 expires_at = (case existingPermission of None \<Rightarrow> None | Some p \<Rightarrow> expires_at p),
                 product_id = (case existingPermission of None \<Rightarrow> None | Some p \<Rightarrow> product_id p),
                 platform = (case existingPermission of None \<Rightarrow> None | Some p \<Rightarrow> platform p),
                 revenuecat_user_id = userId,
                 metadata = Some updatedMetadata\<rparr> of
                (Some e, w2) \<Rightarrow> (Some (StoreError e), w2)
              | (None, w2) \<Rightarrow> (None, w2))))"

definition handleBillingIssue ::
  "world \<Rightarrow> string \<Rightarrow> string \<Rightarrow> js_error option \<times> world" where
  "handleBillingIssue w userId entitlementId =
     (case select_permission w (userId, entitlementId) of
        ((existingPermission, fetchError), w1) \<Rightarrow>
          (case fetchError of
             Some err \<Rightarrow> (Some (StoreError err), w1)
           | None \<Rightarrow>
          (case existingPermission of
             None \<Rightarrow> (None, w1)
           | Some p \<Rightarrow>
          (let updatedMetadata =
                 AList.update ''source'' (JString ''revenuecat_webhook'')
                   (AList.update ''billing_issue_detected_at'' (JTime (now w 0))
                     (AList.update ''billing_issue'' (JBool True)
                       (existingMetadata (Some p))))
           in case upsert_permission w1
                \<lparr>profile_id = userId,
                 permission_id = entitlementId,
                 active = True,
                 expires_at = expires_at p,
                 product_id = product_id p,
                 platform = platform p,
                 revenuecat_user_id = userId,
                 metadata = Some updatedMetadata\<rparr> of
                (Some e, w2) \<Rightarrow> (Some (StoreError e), w2)
              | (None, w2) \<Rightarrow> (None, w2)))))"

subsection \<open>The request handler\<close>

text \<open>\<open>eventData.entitlement_ids?.[0] || "product_a"\<close>: the empty string is falsy.\<close>

definition entitlementId_of :: "event \<Rightarrow> string" where
  "entitlementId_of e =
     (case entitlement_ids e of
        None \<Rightarrow> ''product_a''
      | Some [] \<Rightarrow> ''product_a''
      | Some (x # xs) \<Rightarrow> if x = [] then ''product_a'' else x)"

text \<open>The \<open>switch (eventType)\<close> of the handler, with the lower-cased store.\<close>

definition dispatch :: "world \<Rightarrow> event \<Rightarrow> string \<Rightarrow> js_error option \<times> world" where
  "dispatch w e store' =
     (let userId = original_app_user_id e;
          eventType = ev_type e;
          entitlementId = entitlementId_of e
      in if eventType = ''INITIAL_PURCHASE'' \<or> eventType = ''RENEWAL''
            \<or> eventType = ''NON_RENEWING_PURCHASE''
         then handleSubscriptionActivation w userId entitlementId (ev_product_id e) store'
                (expirationDate (expiration_at_ms e)) (transaction_id e) (environment e)
         else if eventType = ''CANCELLATION''
         then handleSubscriptionCancellation w userId entitlementId
                (expirationDate (expiration_at_ms e))
         else if eventType = ''EXPIRATION''
         then handleSubscriptionExpiration w userId entitlementId
         else if eventType = ''PRODUCT_CHANGE''
         then handleSubscriptionActivation w userId entitlementId (ev_product_id e) store'
                (expirationDate (expiration_at_ms e)) (transaction_id e) (environment e)
         else if eventType = ''BILLING_ISSUE''
         then handleBillingIssue w userId entitlementId
         else (None, w))"

definition json_headers :: "(string \<times> string) list" where
  "json_headers = [(''Content-Type'', ''application/json'')]"

definition processed_response :: "event \<Rightarrow> response" where
  "processed_response e =
     \<lparr>status = 200, headers = json_headers,
      content = Some [(''status'', ''processed''), (''event_type'', ev_type e),
                      (''environment'', environment e),
                      (''user_id'', original_app_user_id e)]\<rparr>"

definition server_error_response :: response where
  "server_error_response =
     \<lparr>status = 500, headers = json_headers,
      content = Some [(''status'', ''error''),
                      (''message'', ''Server error processing webhook'')]\<rparr>"

definition error_response :: "nat \<Rightarrow> string \<Rightarrow> response" where
  "error_response code msg =
     \<lparr>status = code, headers = json_headers, content = Some [(''error'', msg)]\<rparr>"

text \<open>
  The body of the handler's \<open>try\<close> after the authorization checks: create the client
  (\<open>Deno.env.get("SUPABASE_URL") || ""\<close>, and the same for the key), parse, extract,
  dispatch. \<open>Inl\<close> is a \<open>throw\<close> that reaches the handler's \<open>catch\<close>.
\<close>

definition process :: "world \<Rightarrow> request \<Rightarrow> (js_error + response) \<times> world" where
  "process w req =
     (case createClient (case SUPABASE_URL w of None \<Rightarrow> [] | Some u \<Rightarrow> u)
             (case SUPABASE_SERVICE_ROLE_KEY w of None \<Rightarrow> [] | Some k \<Rightarrow> k) of
        Some err \<Rightarrow> (Inl err, w)
      | None \<Rightarrow>
     (case payload req of
        Malformed \<Rightarrow> (Inl SyntaxError, w)
      | Envelope None \<Rightarrow> (Inl TypeError, w)
      | Envelope (Some e) \<Rightarrow>
          (case store e of
             None \<Rightarrow> (Inl TypeError, w)
           | Some s \<Rightarrow>
               (case dispatch w e (toLowerCase w s) of
                  (Some err, w') \<Rightarrow> (Inl err, w')
                | (None, w') \<Rightarrow> (Inr (processed_response e), w')))))"

definition serve :: "world \<Rightarrow> request \<Rightarrow> response \<times> world" where
  "serve w req =
     (if req_method req = ''OPTIONS''
      then (\<lparr>status = 204,
             headers = [(''Access-Control-Allow-Origin'', ''*''),
                        (''Access-Control-Allow-Methods'', ''POST, OPTIONS''),
                        (''Access-Control-Allow-Headers'', ''Content-Type, Authorization'')],
             content = None\<rparr>, w)
      else if req_method req \<noteq> ''POST''
      then (error_response 405 ''Method not allowed'', w)
      else
        (case REVENUECAT_AUTH_HEADER w of
           None \<Rightarrow> (error_response 500 ''Server configuration error'', w)
         | Some expected \<Rightarrow>
             if expected = [] then (error_response 500 ''Server configuration error'', w)
             else if (case authorization req of
                        None \<Rightarrow> True
                      | Some authHeader \<Rightarrow> authHeader = [] \<or> authHeader \<noteq> expected)
             then (error_response 401 ''Unauthorized'', w)
             else (case process w req of
                     (Inl err, w') \<Rightarrow> (server_error_response, w')
                   | (Inr resp, w') \<Rightarrow> (resp, w'))))"

subsection \<open>Requests that pass the authorization checks\<close>

text \<open>
  A POST whose Authorization header equals the configured, non-empty secret: the
  requests that reach the handler's \<open>try\<close> body past both checks.
\<close>

definition authenticated :: "world \<Rightarrow> request \<Rightarrow> bool" where
  "authenticated w req =
     (req_method req = ''POST'' \<and>
      (case REVENUECAT_AUTH_HEADER w of
         None \<Rightarrow> False
       | Some expected \<Rightarrow> expected \<noteq> [] \<and> authorization req = Some expected))"

text \<open>
  A deployment whose \<open>SUPABASE_URL\<close> and \<open>SUPABASE_SERVICE_ROLE_KEY\<close> are set and
  not empty: the worlds in which \<open>createClient\<close> returns a client.
\<close>

definition client_configured :: "world \<Rightarrow> bool" where
  "client_configured w =
     ((case SUPABASE_URL w of None \<Rightarrow> False | Some u \<Rightarrow> u \<noteq> []) \<and>
      (case SUPABASE_SERVICE_ROLE_KEY w of None \<Rightarrow> False | Some k \<Rightarrow> k \<noteq> []))"

subsection \<open>Example inputs\<close>

text \<open>A lower-casing of the ASCII letters, for the examples.\<close>

definition lower_char :: "char \<Rightarrow> char" where
  "lower_char c =
     (let n = (of_char c :: nat) in if 65 \<le> n \<and> n \<le> 90 then char_of (n + 32) else c)"

definition ascii_lower :: "string \<Rightarrow> string" where
  "ascii_lower s = map lower_char s"

text \<open>A clock that reads the same instant at every call.\<close>

definition clock_at :: "int \<Rightarrow> nat \<Rightarrow> timestamp" where
  "clock_at ms k = ISO ms"

text \<open>
  The first example scenario of the specification: a configured deployment with an empty
  table, and an INITIAL_PURCHASE of the premium entitlement for user u1.
\<close>

definition world0 :: world where
  "world0 =
     \<lparr>REVENUECAT_AUTH_HEADER = Some ''secret'',
      SUPABASE_URL = Some ''https://x.supabase.co'',
      SUPABASE_SERVICE_ROLE_KEY = Some ''k'', user_permissions = Map.empty,
      select_error = None, upsert_error = None, now = clock_at 1000,
      toLowerCase = ascii_lower, fetch_result = Rejected, db_trace = [], insights_triggered = [], fetch_calls = [],
      insights_log = []\<rparr>"

definition event0 :: event where
  "event0 =
     \<lparr>ev_type = ''INITIAL_PURCHASE'', original_app_user_id = ''u1'', ev_product_id = ''p1'',
      entitlement_ids = Some [''product_a''], environment = ''PRODUCTION'',
      expiration_at_ms = Some 1893456000000, transaction_id = ''t1'',
      store = Some ''APP_STORE''\<rparr>"

definition post :: "string option \<Rightarrow> event \<Rightarrow> request" where
  "post auth e = \<lparr>req_method = ''POST'', authorization = auth, payload = Envelope (Some e)\<rparr>"

text \<open>An active premium record of user u1 that carries a billing-issue flag.\<close>

definition permission0 :: permission where
  "permission0 =
     \<lparr>profile_id = ''u1'', permission_id = ''product_a'', active = True,
      expires_at = Some (ISO 1000), product_id = Some ''p1'', platform = Some ''app_store'',
      revenuecat_user_id = ''u1'',
      metadata = Some [(''transaction_id'', JString ''t0''), (''billing_issue'', JBool True)]\<rparr>"

definition world1 :: world where
  "world1 = world0\<lparr>user_permissions := [(''u1'', ''product_a'') \<mapsto> permission0]\<rparr>"

text \<open>
  Further events of user u1 for the same entitlement; the expiration names no entitlement
  and falls back to \<open>product_a\<close>.
\<close>

definition cancellation0 :: event where
  "cancellation0 = event0\<lparr>ev_type := ''CANCELLATION'', expiration_at_ms := Some 2500\<rparr>"

definition expiration0 :: event where
  "expiration0 = event0\<lparr>ev_type := ''EXPIRATION'', entitlement_ids := None\<rparr>"

definition billing_issue0 :: event where
  "billing_issue0 = event0\<lparr>ev_type := ''BILLING_ISSUE''\<rparr>"

definition renewal0 :: event where
  "renewal0 = event0\<lparr>ev_type := ''RENEWAL''\<rparr>"

text \<open>A billing issue for another entitlement of u1, for which the table has no record.\<close>

definition coaching_issue0 :: event where
  "coaching_issue0 = event0\<lparr>ev_type := ''BILLING_ISSUE'', entitlement_ids := Some [''coaching'']\<rparr>"

section \<open>Properties\<close>

subsection \<open>The request handler, step by step\<close>

lemma serve_authenticated:
  "authenticated w req \<Longrightarrow>
   serve w req = (case process w req of
                    (Inl err, w') \<Rightarrow> (server_error_response, w')
                  | (Inr resp, w') \<Rightarrow> (resp, w'))"
  by (auto simp: authenticated_def serve_def split: option.splits)

lemma serve_unauthenticated:
  "\<not> authenticated w req \<Longrightarrow> snd (serve w req) = w"
  by (auto simp: authenticated_def serve_def split: option.splits)

lemma createClient_configured:
  "client_configured w \<Longrightarrow>
   createClient (case SUPABASE_URL w of None \<Rightarrow> [] | Some u \<Rightarrow> u)
     (case SUPABASE_SERVICE_ROLE_KEY w of None \<Rightarrow> [] | Some k \<Rightarrow> k) = None"
  by (auto simp: client_configured_def createClient_def split: option.splits)

lemma createClient_throws:
  "\<not> client_configured w \<Longrightarrow>
   \<exists>err. createClient (case SUPABASE_URL w of None \<Rightarrow> [] | Some u \<Rightarrow> u)
           (case SUPABASE_SERVICE_ROLE_KEY w of None \<Rightarrow> [] | Some k \<Rightarrow> k) = Some err"
  by (auto simp: client_configured_def createClient_def split: option.splits)

lemma process_unconfigured:
  "\<not> client_configured w \<Longrightarrow> \<exists>err. process w req = (Inl err, w)"
  using createClient_throws [of w] by (auto simp: process_def)

lemma process_event:
  "client_configured w \<Longrightarrow> payload req = Envelope (Some e) \<Longrightarrow> store e = Some s \<Longrightarrow>
   process w req = (case dispatch w e (toLowerCase w s) of
                      (Some err, w') \<Rightarrow> (Inl err, w')
                    | (None, w') \<Rightarrow> (Inr (processed_response e), w'))"
  by (simp add: process_def createClient_configured)

lemma serve_event:
  assumes "authenticated w req" and "client_configured w"
    and "payload req = Envelope (Some e)" and "store e = Some s"
  shows "serve w req = (case dispatch w e (toLowerCase w s) of
                          (Some err, w') \<Rightarrow> (server_error_response, w')
                        | (None, w') \<Rightarrow> (processed_response e, w'))"
  using assms by (simp add: serve_authenticated process_event split: prod.splits option.splits)

lemma select_ok:
  "select_error w = None \<Longrightarrow>
   select_permission w k =
     ((user_permissions w k, None), w\<lparr>db_trace := db_trace w @ [Select k]\<rparr>)"
  by (simp add: select_permission_def)

lemma upsert_ok:
  "upsert_error w = None \<Longrightarrow>
   upsert_permission w r =
     (None, w\<lparr>db_trace := db_trace w @ [Upsert r],
              user_permissions := (user_permissions w)((profile_id r, permission_id r) \<mapsto> r)\<rparr>)"
  by (simp add: upsert_permission_def)

text \<open>
  The expiration a handler writes, when \<open>expiration_at_ms\<close> is null or within the range
  of valid dates.
\<close>

lemma expiration_written:
  assumes "case x of None \<Rightarrow> True
           | Some ms \<Rightarrow> - 8640000000000000 \<le> ms \<and> ms \<le> 8640000000000000"
  shows "expirationString (expirationDate x) =
           Inr (case x of None \<Rightarrow> None | Some ms \<Rightarrow> if ms = 0 then None else Some (ISO ms))"
  using assms
  by (auto simp: expirationString_def expirationDate_def toISOString_def split: option.splits)

text \<open>The example worlds, keys and stores.\<close>

lemma authenticated_post: "authenticated world0 (post (Some ''secret'') e)"
  by (simp add: authenticated_def world0_def post_def)

lemma authenticated_post1: "authenticated world1 (post (Some ''secret'') e)"
  by (simp add: authenticated_def world1_def world0_def post_def)

lemma configured_world0: "client_configured world0"
  by (simp add: client_configured_def world0_def)

lemma configured_world1: "client_configured world1"
  by (simp add: client_configured_def world1_def world0_def)

lemma lower_app_store:
  "toLowerCase world0 ''APP_STORE'' = ''app_store''"
  "toLowerCase world1 ''APP_STORE'' = ''app_store''"
  by code_simp+

lemma event0_key:
  "original_app_user_id event0 = ''u1''" "entitlementId_of event0 = ''product_a''"
  by (simp_all add: event0_def entitlementId_of_def)

lemma cancellation0_key:
  "original_app_user_id cancellation0 = ''u1''" "entitlementId_of cancellation0 = ''product_a''"
  by (simp_all add: cancellation0_def event0_def entitlementId_of_def)

lemma expiration0_key:
  "original_app_user_id expiration0 = ''u1''" "entitlementId_of expiration0 = ''product_a''"
  by (simp_all add: expiration0_def event0_def entitlementId_of_def)

lemma billing_issue0_key:
  "original_app_user_id billing_issue0 = ''u1''" "entitlementId_of billing_issue0 = ''product_a''"
  by (simp_all add: billing_issue0_def event0_def entitlementId_of_def)

lemma coaching_issue0_key:
  "original_app_user_id coaching_issue0 = ''u1''" "entitlementId_of coaching_issue0 = ''coaching''"
  by (simp_all add: coaching_issue0_def event0_def entitlementId_of_def)

subsection \<open>Authorization\<close>

text \<open>
  C5. A POST whose Authorization header is missing or differs from the configured secret
  is answered with status 401 and the body \<open>{error: "Unauthorized"}\<close>, and a POST to a
  deployment without a configured secret is answered with status 500 and the body
  \<open>{error: "Server configuration error"}\<close>, whatever the event is. In both cases the
  world returned is the world given: no read or write reached the table (\<open>db_trace\<close>
  and \<open>user_permissions\<close> are unchanged) and the event was not processed. A secret set
  to the empty string counts as not configured, as the handler's \<open>!EXPECTED_AUTH\<close>
  reads it.
\<close>

theorem unauthorized_request_is_rejected:
  assumes "req_method req = ''POST''"
  shows "(REVENUECAT_AUTH_HEADER w = Some expected \<and> expected \<noteq> [] \<and>
            authorization req \<noteq> Some expected \<longrightarrow>
            serve w req =
              (\<lparr>status = 401, headers = [(''Content-Type'', ''application/json'')],
                content = Some [(''error'', ''Unauthorized'')]\<rparr>, w)) \<and>
         (REVENUECAT_AUTH_HEADER w = None \<or> REVENUECAT_AUTH_HEADER w = Some [] \<longrightarrow>
            serve w req =
              (\<lparr>status = 500, headers = [(''Content-Type'', ''application/json'')],
                content = Some [(''error'', ''Server configuration error'')]\<rparr>, w))"
  using assms
  by (auto simp: serve_def error_response_def json_headers_def split: option.splits)

theorem unauthorized_request_is_rejected_witness:
  "serve world1 (post (Some ''wrong'') expiration0) =
     (\<lparr>status = 401, headers = [(''Content-Type'', ''application/json'')],
       content = Some [(''error'', ''Unauthorized'')]\<rparr>, world1) \<and>
   serve world1 (post None expiration0) =
     (\<lparr>status = 401, headers = [(''Content-Type'', ''application/json'')],
       content = Some [(''error'', ''Unauthorized'')]\<rparr>, world1) \<and>
   serve (world1\<lparr>REVENUECAT_AUTH_HEADER := None\<rparr>) (post (Some ''secret'') expiration0) =
     (\<lparr>status = 500, headers = [(''Content-Type'', ''application/json'')],
       content = Some [(''error'', ''Server configuration error'')]\<rparr>,
      world1\<lparr>REVENUECAT_AUTH_HEADER := None\<rparr>)"
proof -
  have m: "req_method (post a expiration0) = ''POST''" for a
    by (simp add: post_def)
  have c: "REVENUECAT_AUTH_HEADER world1 = Some ''secret''"
    by (simp add: world1_def world0_def)
  have "serve world1 (post (Some ''wrong'') expiration0) =
     (\<lparr>status = 401, headers = [(''Content-Type'', ''application/json'')],
       content = Some [(''error'', ''Unauthorized'')]\<rparr>, world1)"
    using unauthorized_request_is_rejected [OF m, of world1 "''secret''" "Some ''wrong''"] c
    by (simp add: post_def)
  moreover have "serve world1 (post None expiration0) =
     (\<lparr>status = 401, headers = [(''Content-Type'', ''application/json'')],
       content = Some [(''error'', ''Unauthorized'')]\<rparr>, world1)"
    using unauthorized_request_is_rejected [OF m, of world1 "''secret''" None] c
    by (simp add: post_def)
  moreover have
    "serve (world1\<lparr>REVENUECAT_AUTH_HEADER := None\<rparr>) (post (Some ''secret'') expiration0) =
     (\<lparr>status = 500, headers = [(''Content-Type'', ''application/json'')],
       content = Some [(''error'', ''Server configuration error'')]\<rparr>,
      world1\<lparr>REVENUECAT_AUTH_HEADER := None\<rparr>)"
    using unauthorized_request_is_rejected
      [OF m, of "world1\<lparr>REVENUECAT_AUTH_HEADER := None\<rparr>" "[]" "Some ''secret''"]
    by simp
  ultimately show ?thesis by simp
qed

subsection \<open>Events the handler does not know, and events without a store\<close>

text \<open>
  C6, as the handler has it. In a deployment whose \<open>SUPABASE_URL\<close> and service-role key
  are set, an authenticated POST that carries an event with a \<open>store\<close> string whose type
  is none of the seven known kinds is answered with the 200 success payload, which
  echoes the event type, the environment and the user id; the world returned is the
  world given, so no permission record was read or written.
\<close>

theorem unknown_event_type_is_acknowledged:
  assumes "authenticated w req" and "client_configured w"
    and "payload req = Envelope (Some e)" and "store e = Some s"
    and "ev_type e \<notin> {''INITIAL_PURCHASE'', ''RENEWAL'', ''CANCELLATION'', ''EXPIRATION'',
           ''PRODUCT_CHANGE'', ''BILLING_ISSUE'', ''NON_RENEWING_PURCHASE''}"
  shows "serve w req =
           (\<lparr>status = 200, headers = [(''Content-Type'', ''application/json'')],
             content = Some [(''status'', ''processed''), (''event_type'', ev_type e),
                             (''environment'', environment e),
                             (''user_id'', original_app_user_id e)]\<rparr>, w)"
  using assms(5)
  by (simp add: serve_event [OF assms(1-4)] dispatch_def processed_response_def json_headers_def)

theorem unknown_event_type_is_acknowledged_witness:
  "serve world1 (post (Some ''secret'') (event0\<lparr>ev_type := ''TRANSFER''\<rparr>)) =
     (\<lparr>status = 200, headers = [(''Content-Type'', ''application/json'')],
       content = Some [(''status'', ''processed''), (''event_type'', ''TRANSFER''),
                       (''environment'', ''PRODUCTION''), (''user_id'', ''u1'')]\<rparr>, world1)"
proof -
  let ?e = "event0\<lparr>ev_type := ''TRANSFER''\<rparr>"
  have b: "payload (post (Some ''secret'') ?e) = Envelope (Some ?e)"
    by (simp add: post_def)
  have c: "store ?e = Some ''APP_STORE''"
    by (simp add: event0_def)
  have d: "ev_type ?e \<notin> {''INITIAL_PURCHASE'', ''RENEWAL'', ''CANCELLATION'', ''EXPIRATION'',
           ''PRODUCT_CHANGE'', ''BILLING_ISSUE'', ''NON_RENEWING_PURCHASE''}"
    by simp
  show ?thesis
    using unknown_event_type_is_acknowledged [OF authenticated_post1 configured_world1 b c d]
    by (simp add: event0_def)
qed

text \<open>
  C6 as stated (every authenticated POST with an event of unknown type is answered 200)
  fails: a TRANSFER event without a \<open>store\<close> string is answered with the generic 500
  response, and so is a TRANSFER event sent to a deployment without \<open>SUPABASE_URL\<close>.
\<close>

theorem unknown_event_type_without_store_is_an_error:
  "serve world1 (post (Some ''secret'') (event0\<lparr>ev_type := ''TRANSFER'', store := None\<rparr>)) =
     (\<lparr>status = 500, headers = [(''Content-Type'', ''application/json'')],
       content = Some [(''status'', ''error''),
                       (''message'', ''Server error processing webhook'')]\<rparr>, world1) \<and>
   serve (world1\<lparr>SUPABASE_URL := None\<rparr>)
      (post (Some ''secret'') (event0\<lparr>ev_type := ''TRANSFER''\<rparr>)) =
     (\<lparr>status = 500, headers = [(''Content-Type'', ''application/json'')],
       content = Some [(''status'', ''error''),
                       (''message'', ''Server error processing webhook'')]\<rparr>,
      world1\<lparr>SUPABASE_URL := None\<rparr>)"
  by (simp add: serve_def process_def createClient_def world1_def world0_def post_def
        event0_def server_error_response_def json_headers_def)

text \<open>
  C10. An authenticated POST whose parsed event has no \<open>store\<close> string is answered
  with the generic 500 response, whatever its event type: \<open>eventData.store.toLowerCase()\<close>
  throws before the switch on the event type. The world returned is the world given: no
  permission record was read or written.
\<close>

theorem missing_store_is_a_server_error:
  assumes "authenticated w req" and "payload req = Envelope (Some e)" and "store e = None"
  shows "serve w req =
           (\<lparr>status = 500, headers = json_headers,
             content = Some [(''status'', ''error''),
                             (''message'', ''Server error processing webhook'')]\<rparr>, w)"
  using assms
  by (simp add: serve_authenticated process_def server_error_response_def split: option.splits)

theorem missing_store_is_a_server_error_witness:
  "serve world1 (post (Some ''secret'') (event0\<lparr>ev_type := ''EXPIRATION'', store := None\<rparr>)) =
     (\<lparr>status = 500, headers = json_headers,
       content = Some [(''status'', ''error''),
                       (''message'', ''Server error processing webhook'')]\<rparr>, world1)"
proof -
  let ?e = "event0\<lparr>ev_type := ''EXPIRATION'', store := None\<rparr>"
  have b: "payload (post (Some ''secret'') ?e) = Envelope (Some ?e)"
    by (simp add: post_def)
  have c: "store ?e = None"
    by simp
  show ?thesis
    using missing_store_is_a_server_error [OF authenticated_post1 b c] .
qed

subsection \<open>Cancellation\<close>

text \<open>
  C3, as the handler has it. Take a CANCELLATION event with a \<open>store\<close> string, sent with
  the right Authorization header to a deployment whose \<open>SUPABASE_URL\<close> and service-role
  key are set, whose \<open>expiration_at_ms\<close> is null or within the range of valid dates,
  and a key with an existing record that is read and written without error. The record
  left has \<open>active = true\<close>, the prior product and platform, and metadata with status
  \<open>cancelled\<close> and the cancellation timestamp. Its \<open>expires_at\<close> is the expiration the
  event carries: the ISO string of \<open>expiration_at_ms\<close>, or null when
  \<open>expiration_at_ms\<close> is null or 0. The stored value is not read.
\<close>

theorem cancellation_writes_event_expiration:
  assumes "authenticated w req" and "client_configured w"
    and "payload req = Envelope (Some e)" and "store e = Some s"
    and "ev_type e = ''CANCELLATION''"
    and "select_error w = None" and "upsert_error w = None"
    and "user_permissions w (original_app_user_id e, entitlementId_of e) = Some p"
    and "case expiration_at_ms e of None \<Rightarrow> True
         | Some ms \<Rightarrow> - 8640000000000000 \<le> ms \<and> ms \<le> 8640000000000000"
  shows "\<exists>r m. user_permissions (snd (serve w req))
                  (original_app_user_id e, entitlementId_of e) = Some r
           \<and> active r
           \<and> expires_at r =
               (case expiration_at_ms e of
                  None \<Rightarrow> None
                | Some ms \<Rightarrow> if ms = 0 then None else Some (ISO ms))
           \<and> product_id r = product_id p \<and> platform r = platform p
           \<and> metadata r = Some m
           \<and> map_of m ''status'' = Some (JString ''cancelled'')
           \<and> map_of m ''cancelled_at'' = Some (JTime (now w 0))"
  using assms(5-8)
  by (simp add: serve_event [OF assms(1-4)] dispatch_def Let_def
        handleSubscriptionCancellation_def expiration_written [OF assms(9)]
        select_ok upsert_ok update_conv')

theorem cancellation_writes_event_expiration_witness:
  "(\<exists>r m. user_permissions (snd (serve world1 (post (Some ''secret'') cancellation0)))
             (''u1'', ''product_a'') = Some r
      \<and> active r \<and> expires_at r = Some (ISO 2500)
      \<and> product_id r = Some ''p1'' \<and> platform r = Some ''app_store''
      \<and> metadata r = Some m
      \<and> map_of m ''status'' = Some (JString ''cancelled'')
      \<and> map_of m ''cancelled_at'' = Some (JTime (ISO 1000))) \<and>
   (\<exists>r m. user_permissions
             (snd (serve world1
                (post (Some ''secret'') (cancellation0\<lparr>expiration_at_ms := Some 0\<rparr>))))
             (''u1'', ''product_a'') = Some r
      \<and> active r \<and> expires_at r = None
      \<and> product_id r = Some ''p1'' \<and> platform r = Some ''app_store''
      \<and> metadata r = Some m
      \<and> map_of m ''status'' = Some (JString ''cancelled'')
      \<and> map_of m ''cancelled_at'' = Some (JTime (ISO 1000)))"
proof -
  have f: "select_error world1 = None" "upsert_error world1 = None"
    by (simp_all add: world1_def world0_def)
  have n: "now world1 0 = ISO 1000"
    by (simp add: world1_def world0_def clock_at_def)
  have first: "\<exists>r m. user_permissions (snd (serve world1 (post (Some ''secret'') cancellation0)))
             (''u1'', ''product_a'') = Some r
      \<and> active r \<and> expires_at r = Some (ISO 2500)
      \<and> product_id r = Some ''p1'' \<and> platform r = Some ''app_store''
      \<and> metadata r = Some m
      \<and> map_of m ''status'' = Some (JString ''cancelled'')
      \<and> map_of m ''cancelled_at'' = Some (JTime (ISO 1000))"
  proof -
    let ?req = "post (Some ''secret'') cancellation0"
    have b: "payload ?req = Envelope (Some cancellation0)" by (simp add: post_def)
    have c: "store cancellation0 = Some ''APP_STORE''"
      by (simp add: cancellation0_def event0_def)
    have d: "ev_type cancellation0 = ''CANCELLATION''" by (simp add: cancellation0_def)
    have g: "user_permissions world1
               (original_app_user_id cancellation0, entitlementId_of cancellation0)
             = Some permission0"
      by (simp add: cancellation0_key world1_def)
    have h: "case expiration_at_ms cancellation0 of None \<Rightarrow> True
             | Some ms \<Rightarrow> - 8640000000000000 \<le> ms \<and> ms \<le> 8640000000000000"
      by (simp add: cancellation0_def)
    have x: "expiration_at_ms cancellation0 = Some 2500" by (simp add: cancellation0_def)
    show ?thesis
      using cancellation_writes_event_expiration
        [OF authenticated_post1 configured_world1 b c d f g h]
      by (simp add: cancellation0_key permission0_def n x)
  qed
  have second: "\<exists>r m. user_permissions
             (snd (serve world1
                (post (Some ''secret'') (cancellation0\<lparr>expiration_at_ms := Some 0\<rparr>))))
             (''u1'', ''product_a'') = Some r
      \<and> active r \<and> expires_at r = None
      \<and> product_id r = Some ''p1'' \<and> platform r = Some ''app_store''
      \<and> metadata r = Some m
      \<and> map_of m ''status'' = Some (JString ''cancelled'')
      \<and> map_of m ''cancelled_at'' = Some (JTime (ISO 1000))"
  proof -
    let ?e = "cancellation0\<lparr>expiration_at_ms := Some 0\<rparr>"
    let ?req = "post (Some ''secret'') ?e"
    have b: "payload ?req = Envelope (Some ?e)" by (simp add: post_def)
    have c: "store ?e = Some ''APP_STORE''"
      by (simp add: cancellation0_def event0_def)
    have d: "ev_type ?e = ''CANCELLATION''" by (simp add: cancellation0_def)
    have k: "original_app_user_id ?e = ''u1''" "entitlementId_of ?e = ''product_a''"
      by (simp_all add: cancellation0_def event0_def entitlementId_of_def)
    have g: "user_permissions world1 (original_app_user_id ?e, entitlementId_of ?e)
             = Some permission0"
      by (simp add: k world1_def)
    have h: "case expiration_at_ms ?e of None \<Rightarrow> True
             | Some ms \<Rightarrow> - 8640000000000000 \<le> ms \<and> ms \<le> 8640000000000000"
      by simp
    show ?thesis
      using cancellation_writes_event_expiration
        [OF authenticated_post1 configured_world1 b c d f g h]
      by (simp add: k permission0_def n)
  qed
  from first second show ?thesis by (rule conjI)
qed

text \<open>
  C3 as stated (the stored \<open>expires_at\<close> is preserved unchanged) fails: the record of
  u1 expires at instant 1000, the event carries 2500, and the record left expires at 2500.
\<close>

theorem cancellation_overwrites_stored_expiration:
  "map_option expires_at (user_permissions world1 (''u1'', ''product_a'')) = Some (Some (ISO 1000)) \<and>
   map_option expires_at
     (user_permissions (snd (serve world1 (post (Some ''secret'') cancellation0)))
        (''u1'', ''product_a'')) = Some (Some (ISO 2500))"
  by code_simp

subsection \<open>Expiration\<close>

text \<open>
  Rows written by the other handlers are active: a row that is inactive after
  activation, cancellation or billing-issue handling was in the table before.
\<close>

lemma trigger_table [simp]:
  "user_permissions (triggerPremiumInsightsGeneration w u) = user_permissions w"
  by (simp add: triggerPremiumInsightsGeneration_def Let_def split: option.splits fetch_result.splits)

lemma select_table:
  "select_permission w k = (res, w') \<Longrightarrow> user_permissions w' = user_permissions w"
  by (auto simp: select_permission_def Let_def split: option.splits)

lemma upsert_table:
  assumes "upsert_permission w r = (err, w')" and "active r"
    and "user_permissions w' k = Some r'" and "\<not> active r'"
  shows "user_permissions w k = Some r'"
  using assms by (auto simp: upsert_permission_def Let_def split: option.splits if_splits)

lemma activation_keeps_rows_active:
  assumes "user_permissions (snd (handleSubscriptionActivation w u ent pr pl x t env)) k = Some r"
    and "\<not> active r"
  shows "user_permissions w k = Some r"
proof (cases "expirationString x")
  case (Inl err)
  with assms(1) show ?thesis by (simp add: handleSubscriptionActivation_def)
next
  case (Inr t')
  obtain res w1 where s: "select_permission w (u, ent) = (res, w1)"
    by (cases "select_permission w (u, ent)")
  let ?row = "\<lparr>profile_id = u, permission_id = ent, active = True, expires_at = t',
                      product_id = Some pr, platform = Some pl, revenuecat_user_id = u,
                      metadata = Some
                        [(''transaction_id'', JString t),
                         (''environment'', JString env),
                         (''updated_at'', JTime (now w 0)),
                         (''status'', JString ''active''),
                         (''source'', JString ''revenuecat_webhook''),
                         (''event_processed_at'', JTime (now w 1))]\<rparr>"
  obtain err w2 where up: "upsert_permission w1 ?row = (err, w2)"
    by (cases "upsert_permission w1 ?row")
  have "user_permissions w2 k = Some r"
    using assms(1) Inr s up
    by (cases res; cases err) (simp_all add: handleSubscriptionActivation_def Let_def split: if_splits)
  then have "user_permissions w1 k = Some r"
    using upsert_table [OF up _ _ assms(2)] by simp
  then show ?thesis using select_table [OF s] by simp
qed

lemma cancellation_keeps_rows_active:
  assumes "user_permissions (snd (handleSubscriptionCancellation w u ent x)) k = Some r"
    and "\<not> active r"
  shows "user_permissions w k = Some r"
proof (cases "expirationString x")
  case (Inl err)
  with assms(1) show ?thesis by (simp add: handleSubscriptionCancellation_def)
next
  case (Inr t')
  obtain res ferr w1 where s: "select_permission w (u, ent) = ((res, ferr), w1)"
    by (cases "select_permission w (u, ent)") auto
  have w1: "user_permissions w1 = user_permissions w"
    using select_table [OF s] .
  show ?thesis
  proof (cases ferr)
    case (Some fe)
    with assms(1) Inr s w1 show ?thesis
      by (simp add: handleSubscriptionCancellation_def)
  next
    case None
    let ?row = "\<lparr>profile_id = u, permission_id = ent, active = True, expires_at = t',
                   product_id = (case res of None \<Rightarrow> None | Some p \<Rightarrow> product_id p),
                   platform = (case res of None \<Rightarrow> None | Some p \<Rightarrow> platform p),
                   revenuecat_user_id = u,
                   metadata = Some
                     (AList.update ''source'' (JString ''revenuecat_webhook'')
                        (AList.update ''cancelled_at'' (JTime (now w 0))
                          (AList.update ''status'' (JString ''cancelled'')
                            (existingMetadata res))))\<rparr>"
    obtain err w2 where up: "upsert_permission w1 ?row = (err, w2)"
      by (cases "upsert_permission w1 ?row")
    have "user_permissions w2 k = Some r"
      using assms(1) Inr s None up
      by (cases err) (simp_all add: handleSubscriptionCancellation_def Let_def)
    then have "user_permissions w1 k = Some r"
      using upsert_table [OF up _ _ assms(2)] by simp
    with w1 show ?thesis by simp
  qed
qed

lemma billing_issue_keeps_rows_active:
  assumes "user_permissions (snd (handleBillingIssue w u ent)) k = Some r"
    and "\<not> active r"
  shows "user_permissions w k = Some r"
proof -
  obtain res ferr w1 where s: "select_permission w (u, ent) = ((res, ferr), w1)"
    by (cases "select_permission w (u, ent)") auto
  have w1: "user_permissions w1 = user_permissions w"
    using select_table [OF s] .
  show ?thesis
  proof (cases ferr)
    case (Some fe)
    with assms(1) s w1 show ?thesis
      by (simp add: handleBillingIssue_def)
  next
    case None
    show ?thesis
    proof (cases res)
      case no_row: None
      with assms(1) s None w1 show ?thesis
        by (simp add: handleBillingIssue_def)
    next
      case (Some p)
      let ?row = "\<lparr>profile_id = u, permission_id = ent, active = True,
                     expires_at = expires_at p, product_id = product_id p,
                     platform = platform p, revenuecat_user_id = u,
                     metadata = Some
                       (AList.update ''source'' (JString ''revenuecat_webhook'')
                          (AList.update ''billing_issue_detected_at'' (JTime (now w 0))
                            (AList.update ''billing_issue'' (JBool True)
                              (existingMetadata (Some p)))))\<rparr>"
      obtain err w2 where up: "upsert_permission w1 ?row = (err, w2)"
        by (cases "upsert_permission w1 ?row")
      have "user_permissions w2 k = Some r"
        using assms(1) s None Some up
        by (cases err) (simp_all add: handleBillingIssue_def Let_def)
      then have "user_permissions w1 k = Some r"
        using upsert_table [OF up _ _ assms(2)] by simp
      with w1 show ?thesis by simp
    qed
  qed
qed

lemma dispatch_keeps_rows_active:
  assumes "user_permissions (snd (dispatch w e s)) k = Some r" and "\<not> active r"
    and "ev_type e \<noteq> ''EXPIRATION''"
  shows "user_permissions w k = Some r"
proof -
  have "dispatch w e s = handleSubscriptionActivation w (original_app_user_id e)
               (entitlementId_of e) (ev_product_id e) s (expirationDate (expiration_at_ms e))
               (transaction_id e) (environment e)
       \<or> dispatch w e s = handleSubscriptionCancellation w (original_app_user_id e)
               (entitlementId_of e) (expirationDate (expiration_at_ms e))
       \<or> dispatch w e s = handleBillingIssue w (original_app_user_id e) (entitlementId_of e)
       \<or> dispatch w e s = (None, w)"
    using assms(3) by (simp add: dispatch_def Let_def)
  then show ?thesis
  proof (elim disjE)
    assume "dispatch w e s = handleSubscriptionActivation w (original_app_user_id e)
               (entitlementId_of e) (ev_product_id e) s (expirationDate (expiration_at_ms e))
               (transaction_id e) (environment e)"
    with assms(1) show ?thesis
      by (simp only: activation_keeps_rows_active [OF _ assms(2)])
  next
    assume "dispatch w e s = handleSubscriptionCancellation w (original_app_user_id e)
               (entitlementId_of e) (expirationDate (expiration_at_ms e))"
    with assms(1) show ?thesis
      by (simp only: cancellation_keeps_rows_active [OF _ assms(2)])
  next
    assume "dispatch w e s = handleBillingIssue w (original_app_user_id e) (entitlementId_of e)"
    with assms(1) show ?thesis
      by (simp only: billing_issue_keeps_rows_active [OF _ assms(2)])
  next
    assume "dispatch w e s = (None, w)"
    with assms(1) show ?thesis by simp
  qed
qed

lemma serve_table_cases:
  "user_permissions (snd (serve w req)) = user_permissions w \<or>
   (\<exists>e s. payload req = Envelope (Some e) \<and> store e = Some s \<and>
      user_permissions (snd (serve w req)) =
        user_permissions (snd (dispatch w e (toLowerCase w s))))"
proof (cases "authenticated w req")
  case False
  then show ?thesis by (simp add: serve_unauthenticated)
next
  case True
  show ?thesis
  proof (cases "client_configured w")
    case unconfigured: False
    from process_unconfigured [OF this, of req]
    obtain err where "process w req = (Inl err, w)" by blast
    then show ?thesis by (simp add: serve_authenticated [OF True])
  next
    case configured: True
    then have cc: "createClient (case SUPABASE_URL w of None \<Rightarrow> [] | Some u \<Rightarrow> u)
        (case SUPABASE_SERVICE_ROLE_KEY w of None \<Rightarrow> [] | Some k \<Rightarrow> k) = None"
      by (rule createClient_configured)
    show ?thesis
    proof (cases "payload req")
      case Malformed
      then show ?thesis by (simp add: serve_authenticated [OF True] process_def cc)
    next
      case (Envelope eo)
      show ?thesis
      proof (cases eo)
        case None
        with Envelope show ?thesis by (simp add: serve_authenticated [OF True] process_def cc)
      next
        case (Some e)
        show ?thesis
        proof (cases "store e")
          case no_store: None
          with Envelope Some show ?thesis
            by (simp add: serve_authenticated [OF True] process_def cc)
        next
          case (Some s)
          from Envelope \<open>eo = Some e\<close> have p: "payload req = Envelope (Some e)" by simp
          have "snd (serve w req) = snd (dispatch w e (toLowerCase w s))"
            by (simp add: serve_event [OF True configured p Some]
                  split: prod.splits option.splits)
          with p Some show ?thesis by auto
        qed
      qed
    qed
  qed
qed

lemma only_expiration_deactivates:
  assumes "user_permissions (snd (serve w req)) k = Some r" and "\<not> active r"
    and "user_permissions w k \<noteq> Some r"
  shows "\<exists>e. payload req = Envelope (Some e) \<and> ev_type e = ''EXPIRATION''"
proof -
  from serve_table_cases [of w req] assms(1,3)
  obtain e s where e: "payload req = Envelope (Some e)"
    and d: "user_permissions (snd (dispatch w e (toLowerCase w s))) k = Some r"
    by auto
  have "ev_type e = ''EXPIRATION''"
    using dispatch_keeps_rows_active [OF d assms(2)] assms(3) by blast
  with e show ?thesis by blast
qed

text \<open>
  C4. An EXPIRATION event applied to a key with an existing record (the request is
  authenticated, the deployment has its \<open>SUPABASE_URL\<close> and service-role key, the event
  has its \<open>store\<close> string, the read and the write succeed) leaves a record with
  \<open>active = false\<close>, the prior \<open>expires_at\<close>, \<open>product_id\<close> and \<open>platform\<close>,
  and metadata with status \<open>expired\<close>. And only EXPIRATION sets \<open>active\<close> to false:
  whenever a request leaves an inactive row that was not in the table before, its event
  is an EXPIRATION.
\<close>

theorem expiration_revokes_access:
  assumes "authenticated w req" and "client_configured w"
    and "payload req = Envelope (Some e)" and "store e = Some s"
    and "ev_type e = ''EXPIRATION''"
    and "select_error w = None" and "upsert_error w = None"
    and "user_permissions w (original_app_user_id e, entitlementId_of e) = Some p"
  shows "(\<exists>r m. user_permissions (snd (serve w req)) (original_app_user_id e, entitlementId_of e) = Some r
           \<and> \<not> active r \<and> expires_at r = expires_at p
           \<and> product_id r = product_id p \<and> platform r = platform p
           \<and> metadata r = Some m
           \<and> map_of m ''status'' = Some (JString ''expired'')) \<and>
         (\<forall>w' req' k r. user_permissions (snd (serve w' req')) k = Some r \<and> \<not> active r
              \<and> user_permissions w' k \<noteq> Some r
            \<longrightarrow> (\<exists>e'. payload req' = Envelope (Some e') \<and> ev_type e' = ''EXPIRATION''))"
proof
  show "\<exists>r m. user_permissions (snd (serve w req)) (original_app_user_id e, entitlementId_of e) = Some r
           \<and> \<not> active r \<and> expires_at r = expires_at p
           \<and> product_id r = product_id p \<and> platform r = platform p
           \<and> metadata r = Some m
           \<and> map_of m ''status'' = Some (JString ''expired'')"
    using assms(5-8)
    by (simp add: serve_event [OF assms(1-4)] dispatch_def Let_def
          handleSubscriptionExpiration_def select_ok upsert_ok update_conv')
  show "\<forall>w' req' k r. user_permissions (snd (serve w' req')) k = Some r \<and> \<not> active r
              \<and> user_permissions w' k \<noteq> Some r
            \<longrightarrow> (\<exists>e'. payload req' = Envelope (Some e') \<and> ev_type e' = ''EXPIRATION'')"
    using only_expiration_deactivates by blast
qed

theorem expiration_revokes_access_witness:
  "\<exists>r m. user_permissions (snd (serve world1 (post (Some ''secret'') expiration0)))
            (''u1'', ''product_a'') = Some r
         \<and> \<not> active r \<and> expires_at r = Some (ISO 1000)
         \<and> product_id r = Some ''p1'' \<and> platform r = Some ''app_store''
         \<and> metadata r = Some m
         \<and> map_of m ''status'' = Some (JString ''expired'')"
proof -
  let ?req = "post (Some ''secret'') expiration0"
  have b: "payload ?req = Envelope (Some expiration0)" by (simp add: post_def)
  have c: "store expiration0 = Some ''APP_STORE''" by (simp add: expiration0_def event0_def)
  have d: "ev_type expiration0 = ''EXPIRATION''" by (simp add: expiration0_def)
  have f: "select_error world1 = None" "upsert_error world1 = None"
    by (simp_all add: world1_def world0_def)
  have g: "user_permissions world1 (original_app_user_id expiration0, entitlementId_of expiration0)
             = Some permission0"
    by (simp add: expiration0_key world1_def)
  show ?thesis
    using expiration_revokes_access [OF authenticated_post1 configured_world1 b c d f g]
    by (simp add: expiration0_key permission0_def)
qed

subsection \<open>Billing issues\<close>

text \<open>
  C9, as the handler has it. Take a BILLING_ISSUE event with a \<open>store\<close> string, sent
  with the right Authorization header to a deployment whose \<open>SUPABASE_URL\<close> and
  service-role key are set, and let the read of the existing record succeed. When the key
  has no record the handler only reads (the trace gains one \<open>Select\<close>, the table is
  unchanged) and the webhook answers with the 200 success payload. When the key has a
  record and the write succeeds, the answer is the same payload and the record left has
  \<open>active = true\<close>, the prior \<open>expires_at\<close>, \<open>product_id\<close> and \<open>platform\<close>, and the
  prior metadata with the billing-issue flag, the detection timestamp and the source set.
\<close>

theorem billing_issue_flags_existing_record:
  assumes "authenticated w req" and "client_configured w"
    and "payload req = Envelope (Some e)" and "store e = Some s"
    and "ev_type e = ''BILLING_ISSUE''" and "select_error w = None"
  shows "(user_permissions w (original_app_user_id e, entitlementId_of e) = None \<longrightarrow>
            serve w req =
              (\<lparr>status = 200, headers = [(''Content-Type'', ''application/json'')],
                content = Some [(''status'', ''processed''), (''event_type'', ''BILLING_ISSUE''),
                                (''environment'', environment e),
                                (''user_id'', original_app_user_id e)]\<rparr>,
               w\<lparr>db_trace := db_trace w @ [Select (original_app_user_id e, entitlementId_of e)]\<rparr>)) \<and>
         (\<forall>p. user_permissions w (original_app_user_id e, entitlementId_of e) = Some p
               \<and> upsert_error w = None \<longrightarrow>
            fst (serve w req) =
              \<lparr>status = 200, headers = [(''Content-Type'', ''application/json'')],
               content = Some [(''status'', ''processed''), (''event_type'', ''BILLING_ISSUE''),
                               (''environment'', environment e),
                               (''user_id'', original_app_user_id e)]\<rparr> \<and>
            (\<exists>r m. user_permissions (snd (serve w req))
                      (original_app_user_id e, entitlementId_of e) = Some r
               \<and> active r \<and> expires_at r = expires_at p
               \<and> product_id r = product_id p \<and> platform r = platform p
               \<and> metadata r = Some m
               \<and> map_of m ''billing_issue'' = Some (JBool True)
               \<and> map_of m ''billing_issue_detected_at'' = Some (JTime (now w 0))
               \<and> map_of m ''source'' = Some (JString ''revenuecat_webhook'')
               \<and> (\<forall>f. f \<notin> {''billing_issue'', ''billing_issue_detected_at'', ''source''} \<longrightarrow>
                      map_of m f =
                      map_of (case metadata p of None \<Rightarrow> [] | Some m0 \<Rightarrow> m0) f)))"
  using assms(5,6)
  by (simp add: serve_event [OF assms(1-4)] dispatch_def Let_def
        handleBillingIssue_def select_ok upsert_ok update_conv' existingMetadata_def
        processed_response_def json_headers_def)

theorem billing_issue_flags_existing_record_witness:
  "serve world1 (post (Some ''secret'') coaching_issue0) =
     (\<lparr>status = 200, headers = [(''Content-Type'', ''application/json'')],
       content = Some [(''status'', ''processed''), (''event_type'', ''BILLING_ISSUE''),
                       (''environment'', ''PRODUCTION''), (''user_id'', ''u1'')]\<rparr>,
      world1\<lparr>db_trace := db_trace world1 @ [Select (''u1'', ''coaching'')]\<rparr>) \<and>
   fst (serve world1 (post (Some ''secret'') billing_issue0)) =
     \<lparr>status = 200, headers = [(''Content-Type'', ''application/json'')],
      content = Some [(''status'', ''processed''), (''event_type'', ''BILLING_ISSUE''),
                      (''environment'', ''PRODUCTION''), (''user_id'', ''u1'')]\<rparr> \<and>
   (\<exists>r m. user_permissions (snd (serve world1 (post (Some ''secret'') billing_issue0)))
             (''u1'', ''product_a'') = Some r
      \<and> active r \<and> expires_at r = Some (ISO 1000)
      \<and> product_id r = Some ''p1'' \<and> platform r = Some ''app_store''
      \<and> metadata r = Some m
      \<and> map_of m ''billing_issue'' = Some (JBool True)
      \<and> map_of m ''billing_issue_detected_at'' = Some (JTime (ISO 1000))
      \<and> map_of m ''source'' = Some (JString ''revenuecat_webhook'')
      \<and> map_of m ''transaction_id'' = Some (JString ''t0''))"
proof -
  have f1: "select_error world1 = None" by (simp add: world1_def world0_def)
  have n: "now world1 0 = ISO 1000" by (simp add: world1_def world0_def clock_at_def)
  have first: "serve world1 (post (Some ''secret'') coaching_issue0) =
     (\<lparr>status = 200, headers = [(''Content-Type'', ''application/json'')],
       content = Some [(''status'', ''processed''), (''event_type'', ''BILLING_ISSUE''),
                       (''environment'', ''PRODUCTION''), (''user_id'', ''u1'')]\<rparr>,
      world1\<lparr>db_trace := db_trace world1 @ [Select (''u1'', ''coaching'')]\<rparr>)"
  proof -
    let ?req = "post (Some ''secret'') coaching_issue0"
    have b: "payload ?req = Envelope (Some coaching_issue0)" by (simp add: post_def)
    have c: "store coaching_issue0 = Some ''APP_STORE''"
      by (simp add: coaching_issue0_def event0_def)
    have d: "ev_type coaching_issue0 = ''BILLING_ISSUE''" by (simp add: coaching_issue0_def)
    have g: "user_permissions world1 (''u1'', ''coaching'') = None"
      by (simp add: world1_def world0_def)
    have v: "environment coaching_issue0 = ''PRODUCTION''"
      by (simp add: coaching_issue0_def event0_def)
    show ?thesis
      using billing_issue_flags_existing_record
        [OF authenticated_post1 configured_world1 b c d f1] g
      by (simp add: coaching_issue0_key v)
  qed
  have second: "fst (serve world1 (post (Some ''secret'') billing_issue0)) =
     \<lparr>status = 200, headers = [(''Content-Type'', ''application/json'')],
      content = Some [(''status'', ''processed''), (''event_type'', ''BILLING_ISSUE''),
                      (''environment'', ''PRODUCTION''), (''user_id'', ''u1'')]\<rparr> \<and>
   (\<exists>r m. user_permissions (snd (serve world1 (post (Some ''secret'') billing_issue0)))
             (''u1'', ''product_a'') = Some r
      \<and> active r \<and> expires_at r = Some (ISO 1000)
      \<and> product_id r = Some ''p1'' \<and> platform r = Some ''app_store''
      \<and> metadata r = Some m
      \<and> map_of m ''billing_issue'' = Some (JBool True)
      \<and> map_of m ''billing_issue_detected_at'' = Some (JTime (ISO 1000))
      \<and> map_of m ''source'' = Some (JString ''revenuecat_webhook'')
      \<and> map_of m ''transaction_id'' = Some (JString ''t0''))"
  proof -
    let ?req = "post (Some ''secret'') billing_issue0"
    have b: "payload ?req = Envelope (Some billing_issue0)" by (simp add: post_def)
    have c: "store billing_issue0 = Some ''APP_STORE''"
      by (simp add: billing_issue0_def event0_def)
    have d: "ev_type billing_issue0 = ''BILLING_ISSUE''" by (simp add: billing_issue0_def)
    have g: "user_permissions world1 (''u1'', ''product_a'') = Some permission0
               \<and> upsert_error world1 = None"
      by (simp add: world1_def world0_def)
    have v: "environment billing_issue0 = ''PRODUCTION''"
      by (simp add: billing_issue0_def event0_def)
    have "fst (serve world1 ?req) =
       \<lparr>status = 200, headers = [(''Content-Type'', ''application/json'')],
        content = Some [(''status'', ''processed''), (''event_type'', ''BILLING_ISSUE''),
                        (''environment'', ''PRODUCTION''), (''user_id'', ''u1'')]\<rparr> \<and>
     (\<exists>r m. user_permissions (snd (serve world1 ?req)) (''u1'', ''product_a'') = Some r
        \<and> active r \<and> expires_at r = Some (ISO 1000)
        \<and> product_id r = Some ''p1'' \<and> platform r = Some ''app_store''
        \<and> metadata r = Some m
        \<and> map_of m ''billing_issue'' = Some (JBool True)
        \<and> map_of m ''billing_issue_detected_at'' = Some (JTime (ISO 1000))
        \<and> map_of m ''source'' = Some (JString ''revenuecat_webhook'')
        \<and> (\<forall>f. f \<notin> {''billing_issue'', ''billing_issue_detected_at'', ''source''} \<longrightarrow>
               map_of m f =
               map_of [(''transaction_id'', JString ''t0''), (''billing_issue'', JBool True)] f))"
      using billing_issue_flags_existing_record
        [OF authenticated_post1 configured_world1 b c d f1] g n
      by (simp add: billing_issue0_key v permission0_def)
    then show ?thesis
      by (elim exE conjE) (intro exI conjI, assumption+, simp)
  qed
  from first second show ?thesis by (rule conjI)
qed

text \<open>
  C9 as stated (every BILLING_ISSUE event for a key without a record is answered 200)
  fails: user u1 has no record, and a BILLING_ISSUE event without a \<open>store\<close> string, or
  one whose read of the record fails, is answered with the generic 500 response.
\<close>

theorem billing_issue_without_record_can_be_an_error:
  "user_permissions world0 (''u1'', ''product_a'') = None \<and>
   fst (serve world0 (post (Some ''secret'') (billing_issue0\<lparr>store := None\<rparr>))) =
     \<lparr>status = 500, headers = [(''Content-Type'', ''application/json'')],
      content = Some [(''status'', ''error''),
                      (''message'', ''Server error processing webhook'')]\<rparr> \<and>
   fst (serve (world0\<lparr>select_error := Some ''timeout''\<rparr>) (post (Some ''secret'') billing_issue0)) =
     \<lparr>status = 500, headers = [(''Content-Type'', ''application/json'')],
      content = Some [(''status'', ''error''),
                      (''message'', ''Server error processing webhook'')]\<rparr>"
  by code_simp

subsection \<open>Activation\<close>

text \<open>
  An activation whose expiration is a valid date and whose write succeeds returns, and
  leaves the row it wrote under the key; the configuration is as it was.
\<close>

lemma trigger_fields [simp]:
  "REVENUECAT_AUTH_HEADER (triggerPremiumInsightsGeneration w u) = REVENUECAT_AUTH_HEADER w"
  "SUPABASE_URL (triggerPremiumInsightsGeneration w u) = SUPABASE_URL w"
  "SUPABASE_SERVICE_ROLE_KEY (triggerPremiumInsightsGeneration w u) = SUPABASE_SERVICE_ROLE_KEY w"
  "toLowerCase (triggerPremiumInsightsGeneration w u) = toLowerCase w"
  "select_error (triggerPremiumInsightsGeneration w u) = select_error w"
  "upsert_error (triggerPremiumInsightsGeneration w u) = upsert_error w"
  "now (triggerPremiumInsightsGeneration w u) = now w"
  "db_trace (triggerPremiumInsightsGeneration w u) = db_trace w"
  "insights_triggered (triggerPremiumInsightsGeneration w u) = insights_triggered w @ [u]"
  by (simp_all add: triggerPremiumInsightsGeneration_def Let_def
        split: option.splits fetch_result.splits)

lemma activation_ok:
  assumes "upsert_error w = None" and "expirationString x = Inr t"
  shows "\<exists>w'. handleSubscriptionActivation w u ent pr pl x tr env = (None, w')
           \<and> user_permissions w' = (user_permissions w)((u, ent) \<mapsto>
                \<lparr>profile_id = u, permission_id = ent, active = True, expires_at = t,
                 product_id = Some pr, platform = Some pl, revenuecat_user_id = u,
                 metadata = Some
                   [(''transaction_id'', JString tr),
                    (''environment'', JString env),
                    (''updated_at'', JTime (now w 0)),
                    (''status'', JString ''active''),
                    (''source'', JString ''revenuecat_webhook''),
                    (''event_processed_at'', JTime (now w 1))]\<rparr>)
           \<and> REVENUECAT_AUTH_HEADER w' = REVENUECAT_AUTH_HEADER w
           \<and> SUPABASE_URL w' = SUPABASE_URL w
           \<and> SUPABASE_SERVICE_ROLE_KEY w' = SUPABASE_SERVICE_ROLE_KEY w
           \<and> toLowerCase w' = toLowerCase w
           \<and> upsert_error w' = None"
  using assms
  by (simp add: handleSubscriptionActivation_def select_permission_def upsert_permission_def
        Let_def split: option.splits)

lemma dispatch_activation:
  assumes "ev_type e \<in> {''INITIAL_PURCHASE'', ''RENEWAL'', ''NON_RENEWING_PURCHASE'',
             ''PRODUCT_CHANGE''}"
  shows "dispatch w e s = handleSubscriptionActivation w (original_app_user_id e)
               (entitlementId_of e) (ev_product_id e) s (expirationDate (expiration_at_ms e))
               (transaction_id e) (environment e)"
  using assms by (auto simp: dispatch_def Let_def)

lemma serve_activation_ok:
  assumes "authenticated w req" and "client_configured w"
    and "payload req = Envelope (Some e)" and "store e = Some s"
    and "ev_type e \<in> {''INITIAL_PURCHASE'', ''RENEWAL'', ''NON_RENEWING_PURCHASE'',
           ''PRODUCT_CHANGE''}"
    and "upsert_error w = None"
    and "case expiration_at_ms e of None \<Rightarrow> True
         | Some ms \<Rightarrow> - 8640000000000000 \<le> ms \<and> ms \<le> 8640000000000000"
  shows "\<exists>w'. serve w req = (processed_response e, w')
           \<and> user_permissions w' =
               (user_permissions w)((original_app_user_id e, entitlementId_of e) \<mapsto>
                \<lparr>profile_id = original_app_user_id e, permission_id = entitlementId_of e,
                 active = True,
                 expires_at = (case expiration_at_ms e of
                                 None \<Rightarrow> None
                               | Some ms \<Rightarrow> if ms = 0 then None else Some (ISO ms)),
                 product_id = Some (ev_product_id e), platform = Some (toLowerCase w s),
                 revenuecat_user_id = original_app_user_id e,
                 metadata = Some
                   [(''transaction_id'', JString (transaction_id e)),
                    (''environment'', JString (environment e)),
                    (''updated_at'', JTime (now w 0)),
                    (''status'', JString ''active''),
                    (''source'', JString ''revenuecat_webhook''),
                    (''event_processed_at'', JTime (now w 1))]\<rparr>)
           \<and> REVENUECAT_AUTH_HEADER w' = REVENUECAT_AUTH_HEADER w
           \<and> SUPABASE_URL w' = SUPABASE_URL w
           \<and> SUPABASE_SERVICE_ROLE_KEY w' = SUPABASE_SERVICE_ROLE_KEY w
           \<and> toLowerCase w' = toLowerCase w
           \<and> upsert_error w' = None"
proof -
  from activation_ok [OF assms(6) expiration_written [OF assms(7)]]
  obtain w' where h: "handleSubscriptionActivation w (original_app_user_id e)
               (entitlementId_of e) (ev_product_id e) (toLowerCase w s)
               (expirationDate (expiration_at_ms e)) (transaction_id e) (environment e) = (None, w')"
    and t: "user_permissions w' =
               (user_permissions w)((original_app_user_id e, entitlementId_of e) \<mapsto>
                \<lparr>profile_id = original_app_user_id e, permission_id = entitlementId_of e,
                 active = True,
                 expires_at = (case expiration_at_ms e of
                                 None \<Rightarrow> None
                               | Some ms \<Rightarrow> if ms = 0 then None else Some (ISO ms)),
                 product_id = Some (ev_product_id e), platform = Some (toLowerCase w s),
                 revenuecat_user_id = original_app_user_id e,
                 metadata = Some
                   [(''transaction_id'', JString (transaction_id e)),
                    (''environment'', JString (environment e)),
                    (''updated_at'', JTime (now w 0)),
                    (''status'', JString ''active''),
                    (''source'', JString ''revenuecat_webhook''),
                    (''event_processed_at'', JTime (now w 1))]\<rparr>)"
    and c: "REVENUECAT_AUTH_HEADER w' = REVENUECAT_AUTH_HEADER w"
      "SUPABASE_URL w' = SUPABASE_URL w"
      "SUPABASE_SERVICE_ROLE_KEY w' = SUPABASE_SERVICE_ROLE_KEY w"
      "toLowerCase w' = toLowerCase w" "upsert_error w' = None"
    by blast
  have "serve w req = (processed_response e, w')"
    by (simp add: serve_event [OF assms(1-4)] dispatch_activation [OF assms(5)] h)
  with t c show ?thesis by blast
qed

text \<open>
  C2, as the handler has it. Take a valid activation event: it has a \<open>store\<close> string,
  its \<open>expiration_at_ms\<close> is null or within the range of valid dates, it is sent with
  the right Authorization header to a deployment whose \<open>SUPABASE_URL\<close> and service-role
  key are set, and the write succeeds. Applying it twice leaves a record that agrees with
  the record after the first application in every column, and in every metadata field
  other than the timestamps \<open>updated_at\<close> and \<open>event_processed_at\<close>, which hold the
  clock readings of the second application; when the clock reads the same instants both
  times, the two records are identical.
\<close>

theorem activation_replay_differs_in_timestamps_only:
  assumes "authenticated w req" and "client_configured w"
    and "payload req = Envelope (Some e)" and "store e = Some s"
    and "ev_type e \<in> {''INITIAL_PURCHASE'', ''RENEWAL'', ''NON_RENEWING_PURCHASE'',
           ''PRODUCT_CHANGE''}"
    and "upsert_error w = None"
    and "case expiration_at_ms e of None \<Rightarrow> True
         | Some ms \<Rightarrow> - 8640000000000000 \<le> ms \<and> ms \<le> 8640000000000000"
  shows "\<exists>r1 r2 m1 m2.
           user_permissions (snd (serve w req))
             (original_app_user_id e, entitlementId_of e) = Some r1
         \<and> user_permissions (snd (serve ((snd (serve w req))\<lparr>now := clock\<rparr>) req))
             (original_app_user_id e, entitlementId_of e) = Some r2
         \<and> metadata r1 = Some m1 \<and> metadata r2 = Some m2
         \<and> r2\<lparr>metadata := Some m1\<rparr> = r1
         \<and> (\<forall>f. f \<notin> {''updated_at'', ''event_processed_at''} \<longrightarrow> map_of m2 f = map_of m1 f)
         \<and> map_of m1 ''updated_at'' = Some (JTime (now w 0))
         \<and> map_of m1 ''event_processed_at'' = Some (JTime (now w 1))
         \<and> map_of m2 ''updated_at'' = Some (JTime (clock 0))
         \<and> map_of m2 ''event_processed_at'' = Some (JTime (clock 1))
         \<and> (clock 0 = now w 0 \<and> clock 1 = now w 1 \<longrightarrow> r2 = r1)"
proof -
  from serve_activation_ok [OF assms]
  obtain w1 where s1: "serve w req = (processed_response e, w1)"
    and t1: "user_permissions w1 (original_app_user_id e, entitlementId_of e) =
               Some \<lparr>profile_id = original_app_user_id e, permission_id = entitlementId_of e,
                 active = True,
                 expires_at = (case expiration_at_ms e of
                                 None \<Rightarrow> None
                               | Some ms \<Rightarrow> if ms = 0 then None else Some (ISO ms)),
                 product_id = Some (ev_product_id e), platform = Some (toLowerCase w s),
                 revenuecat_user_id = original_app_user_id e,
                 metadata = Some
                   [(''transaction_id'', JString (transaction_id e)),
                    (''environment'', JString (environment e)),
                    (''updated_at'', JTime (now w 0)),
                    (''status'', JString ''active''),
                    (''source'', JString ''revenuecat_webhook''),
                    (''event_processed_at'', JTime (now w 1))]\<rparr>"
    and c1: "REVENUECAT_AUTH_HEADER w1 = REVENUECAT_AUTH_HEADER w"
      "SUPABASE_URL w1 = SUPABASE_URL w"
      "SUPABASE_SERVICE_ROLE_KEY w1 = SUPABASE_SERVICE_ROLE_KEY w"
      "toLowerCase w1 = toLowerCase w" "upsert_error w1 = None"
    by auto
  let ?w2 = "w1\<lparr>now := clock\<rparr>"
  have a2: "authenticated ?w2 req"
    using assms(1) c1(1) by (simp add: authenticated_def)
  have k2: "client_configured ?w2"
    using assms(2) c1(2,3) by (simp add: client_configured_def)
  have u2: "upsert_error ?w2 = None"
    using c1(5) by simp
  from serve_activation_ok [OF a2 k2 assms(3,4,5) u2 assms(7)]
  obtain w3 where s3: "serve ?w2 req = (processed_response e, w3)"
    and t3: "user_permissions w3 (original_app_user_id e, entitlementId_of e) =
               Some \<lparr>profile_id = original_app_user_id e, permission_id = entitlementId_of e,
                 active = True,
                 expires_at = (case expiration_at_ms e of
                                 None \<Rightarrow> None
                               | Some ms \<Rightarrow> if ms = 0 then None else Some (ISO ms)),
                 product_id = Some (ev_product_id e), platform = Some (toLowerCase w s),
                 revenuecat_user_id = original_app_user_id e,
                 metadata = Some
                   [(''transaction_id'', JString (transaction_id e)),
                    (''environment'', JString (environment e)),
                    (''updated_at'', JTime (clock 0)),
                    (''status'', JString ''active''),
                    (''source'', JString ''revenuecat_webhook''),
                    (''event_processed_at'', JTime (clock 1))]\<rparr>"
    using c1(4) by auto
  show ?thesis
    by (simp add: s1 s3 t1 t3)
qed

theorem activation_replay_differs_in_timestamps_only_witness:
  "\<exists>r1 r2 m1 m2.
      user_permissions (snd (serve world0 (post (Some ''secret'') event0)))
        (''u1'', ''product_a'') = Some r1
    \<and> user_permissions
        (snd (serve ((snd (serve world0 (post (Some ''secret'') event0)))\<lparr>now := clock_at 2000\<rparr>)
                (post (Some ''secret'') event0)))
        (''u1'', ''product_a'') = Some r2
    \<and> metadata r1 = Some m1 \<and> metadata r2 = Some m2
    \<and> r2\<lparr>metadata := Some m1\<rparr> = r1
    \<and> (\<forall>f. f \<notin> {''updated_at'', ''event_processed_at''} \<longrightarrow> map_of m2 f = map_of m1 f)
    \<and> map_of m1 ''updated_at'' = Some (JTime (ISO 1000))
    \<and> map_of m1 ''event_processed_at'' = Some (JTime (ISO 1000))
    \<and> map_of m2 ''updated_at'' = Some (JTime (ISO 2000))
    \<and> map_of m2 ''event_processed_at'' = Some (JTime (ISO 2000))"
proof -
  let ?req = "post (Some ''secret'') event0"
  have b: "payload ?req = Envelope (Some event0)" by (simp add: post_def)
  have c: "store event0 = Some ''APP_STORE''" by (simp add: event0_def)
  have d: "ev_type event0 \<in> {''INITIAL_PURCHASE'', ''RENEWAL'', ''NON_RENEWING_PURCHASE'',
           ''PRODUCT_CHANGE''}"
    by (simp add: event0_def)
  have f: "upsert_error world0 = None" by (simp add: world0_def)
  have x: "case expiration_at_ms event0 of None \<Rightarrow> True
           | Some ms \<Rightarrow> - 8640000000000000 \<le> ms \<and> ms \<le> 8640000000000000"
    by (simp add: event0_def)
  have n: "now world0 0 = ISO 1000" "now world0 1 = ISO 1000"
    by (simp_all add: world0_def clock_at_def)
  have "\<exists>r1 r2 m1 m2.
      user_permissions (snd (serve world0 ?req)) (''u1'', ''product_a'') = Some r1
    \<and> user_permissions (snd (serve ((snd (serve world0 ?req))\<lparr>now := clock_at 2000\<rparr>) ?req))
        (''u1'', ''product_a'') = Some r2
    \<and> metadata r1 = Some m1 \<and> metadata r2 = Some m2
    \<and> r2\<lparr>metadata := Some m1\<rparr> = r1
    \<and> (\<forall>f. f \<notin> {''updated_at'', ''event_processed_at''} \<longrightarrow> map_of m2 f = map_of m1 f)
    \<and> map_of m1 ''updated_at'' = Some (JTime (ISO 1000))
    \<and> map_of m1 ''event_processed_at'' = Some (JTime (ISO 1000))
    \<and> map_of m2 ''updated_at'' = Some (JTime (clock_at 2000 0))
    \<and> map_of m2 ''event_processed_at'' = Some (JTime (clock_at 2000 1))
    \<and> (clock_at 2000 0 = ISO 1000 \<and> clock_at 2000 1 = ISO 1000 \<longrightarrow> r2 = r1)"
    using activation_replay_differs_in_timestamps_only
      [OF authenticated_post configured_world0 b c d f x, of "clock_at 2000"]
    unfolding event0_key n .
  then show ?thesis
    unfolding clock_at_def by (elim exE conjE) (intro exI conjI, assumption+)
qed

text \<open>
  C2 as stated (the final record is identical to the record after the first application)
  fails: the first application runs at instant 1000 and the second at 2000, and the two
  records differ.
\<close>

theorem activation_replay_changes_timestamps:
  "user_permissions
     (snd (serve ((snd (serve world0 (post (Some ''secret'') event0)))\<lparr>now := clock_at 2000\<rparr>)
             (post (Some ''secret'') event0)))
     (''u1'', ''product_a'')
   \<noteq> user_permissions (snd (serve world0 (post (Some ''secret'') event0))) (''u1'', ''product_a'')"
  by code_simp

subsection \<open>The insights trigger\<close>

text \<open>What the trigger sends and logs when the URL is set.\<close>

lemma trigger_calls:
  assumes "SUPABASE_URL w = Some url" and "url \<noteq> []"
    and "SUPABASE_SERVICE_ROLE_KEY w = Some service_key"
  shows "fetch_calls (triggerPremiumInsightsGeneration w u) =
           fetch_calls w @
             [(url @ ''/functions/v1/analyze-golf-performance'', ''Bearer '' @ service_key,
               u, ''purchase_webhook'')]"
  using assms
  by (cases "fetch_result w") (simp_all add: triggerPremiumInsightsGeneration_def Let_def)

lemma trigger_log:
  assumes "SUPABASE_URL w = Some url" and "url \<noteq> []"
  shows "insights_log (triggerPremiumInsightsGeneration w u) =
           insights_log w @
             [case fetch_result w of
                Rejected \<Rightarrow> CaughtError
              | Responded ok parses \<Rightarrow>
                  if ok then (if parses then Generated else CaughtError) else NotOkLogged]"
  using assms
  by (cases "fetch_result w") (simp_all add: triggerPremiumInsightsGeneration_def Let_def)

text \<open>
  C7. Take a new premium activation: an activation event for \<open>product_a\<close> with a
  \<open>store\<close> string and an expiration that is null or a valid date, sent with the right
  Authorization header to a deployment whose \<open>SUPABASE_URL\<close> and service-role key are
  set, for a key that has no record or an inactive one, with the read and the write
  succeeding. Whatever the insights call does (\<open>fetch\<close> rejects, the endpoint answers
  with a non-success status, its body does not parse), the webhook answers with the 200
  success payload and the table holds the row the activation wrote: neither depends on
  the outcome \<open>f\<close> of the call. The trigger was called once, sent its one request, and
  logged the failure.
\<close>

theorem insights_failure_leaves_response_unchanged:
  assumes "authenticated w req"
    and "SUPABASE_URL w = Some url" and "url \<noteq> []"
    and "SUPABASE_SERVICE_ROLE_KEY w = Some service_key" and "service_key \<noteq> []"
    and "payload req = Envelope (Some e)" and "store e = Some s"
    and "ev_type e \<in> {''INITIAL_PURCHASE'', ''RENEWAL'', ''NON_RENEWING_PURCHASE'',
           ''PRODUCT_CHANGE''}"
    and "entitlementId_of e = ''product_a''"
    and "select_error w = None" and "upsert_error w = None"
    and "case expiration_at_ms e of None \<Rightarrow> True
         | Some ms \<Rightarrow> - 8640000000000000 \<le> ms \<and> ms \<le> 8640000000000000"
    and "case user_permissions w (original_app_user_id e, ''product_a'') of
           None \<Rightarrow> True | Some p \<Rightarrow> \<not> active p"
  shows "fst (serve (w\<lparr>fetch_result := f\<rparr>) req) =
           \<lparr>status = 200, headers = [(''Content-Type'', ''application/json'')],
            content = Some [(''status'', ''processed''), (''event_type'', ev_type e),
                            (''environment'', environment e),
                            (''user_id'', original_app_user_id e)]\<rparr>
       \<and> insights_triggered (snd (serve (w\<lparr>fetch_result := f\<rparr>) req)) =
           insights_triggered w @ [original_app_user_id e]
       \<and> fetch_calls (snd (serve (w\<lparr>fetch_result := f\<rparr>) req)) =
           fetch_calls w @
             [(url @ ''/functions/v1/analyze-golf-performance'', ''Bearer '' @ service_key,
               original_app_user_id e, ''purchase_webhook'')]
       \<and> insights_log (snd (serve (w\<lparr>fetch_result := f\<rparr>) req)) =
           insights_log w @
             [case f of
                Rejected \<Rightarrow> CaughtError
              | Responded ok parses \<Rightarrow>
                  if ok then (if parses then Generated else CaughtError) else NotOkLogged]
       \<and> user_permissions (snd (serve (w\<lparr>fetch_result := f\<rparr>) req)) =
           (user_permissions w)((original_app_user_id e, ''product_a'') \<mapsto>
              \<lparr>profile_id = original_app_user_id e, permission_id = ''product_a'',
               active = True,
               expires_at = (case expiration_at_ms e of
                               None \<Rightarrow> None
                             | Some ms \<Rightarrow> if ms = 0 then None else Some (ISO ms)),
               product_id = Some (ev_product_id e), platform = Some (toLowerCase w s),
               revenuecat_user_id = original_app_user_id e,
               metadata = Some
                 [(''transaction_id'', JString (transaction_id e)),
                  (''environment'', JString (environment e)),
                  (''updated_at'', JTime (now w 0)),
                  (''status'', JString ''active''),
                  (''source'', JString ''revenuecat_webhook''),
                  (''event_processed_at'', JTime (now w 1))]\<rparr>)"
proof -
  let ?w = "w\<lparr>fetch_result := f\<rparr>"
  let ?u = "original_app_user_id e"
  let ?row = "\<lparr>profile_id = ?u, permission_id = ''product_a'',
               active = True,
               expires_at = (case expiration_at_ms e of
                               None \<Rightarrow> None
                             | Some ms \<Rightarrow> if ms = 0 then None else Some (ISO ms)),
               product_id = Some (ev_product_id e), platform = Some (toLowerCase w s),
               revenuecat_user_id = ?u,
               metadata = Some
                 [(''transaction_id'', JString (transaction_id e)),
                  (''environment'', JString (environment e)),
                  (''updated_at'', JTime (now w 0)),
                  (''status'', JString ''active''),
                  (''source'', JString ''revenuecat_webhook''),
                  (''event_processed_at'', JTime (now w 1))]\<rparr>"
  let ?w2 = "?w\<lparr>db_trace := db_trace w @ [Select (?u, ''product_a''), Upsert ?row],
                user_permissions := (user_permissions w)((?u, ''product_a'') \<mapsto> ?row)\<rparr>"
  have a: "authenticated ?w req"
    using assms(1) by (simp add: authenticated_def)
  have k: "client_configured ?w"
    using assms(2-5) by (simp add: client_configured_def)
  have se: "select_error ?w = None"
    using assms(10) by simp
  have new: "(case user_permissions w (?u, ''product_a'') of
                None \<Rightarrow> True | Some p \<Rightarrow> \<not> active p)"
    using assms(13) .
  have h: "handleSubscriptionActivation ?w ?u ''product_a'' (ev_product_id e) (toLowerCase w s)
             (expirationDate (expiration_at_ms e)) (transaction_id e) (environment e) =
           (None, triggerPremiumInsightsGeneration ?w2 ?u)"
    using assms(11) new
    by (simp add: handleSubscriptionActivation_def expiration_written [OF assms(12)]
          select_ok [OF se] upsert_ok)
  have s: "serve ?w req = (processed_response e, triggerPremiumInsightsGeneration ?w2 ?u)"
    using h assms(9)
    by (simp add: serve_event [OF a k assms(6,7)] dispatch_activation [OF assms(8)])
  have c: "SUPABASE_URL ?w2 = Some url" "SUPABASE_SERVICE_ROLE_KEY ?w2 = Some service_key"
    using assms(2,4) by simp_all
  have fc: "fetch_calls (triggerPremiumInsightsGeneration ?w2 ?u) =
              fetch_calls ?w2 @
                [(url @ ''/functions/v1/analyze-golf-performance'', ''Bearer '' @ service_key,
                  ?u, ''purchase_webhook'')]"
    by (rule trigger_calls [OF c(1) assms(3) c(2)])
  have lg: "insights_log (triggerPremiumInsightsGeneration ?w2 ?u) =
              insights_log ?w2 @
                [case fetch_result ?w2 of
                   Rejected \<Rightarrow> CaughtError
                 | Responded ok parses \<Rightarrow>
                     if ok then (if parses then Generated else CaughtError) else NotOkLogged]"
    by (rule trigger_log [OF c(1) assms(3)])
  have it: "insights_triggered (triggerPremiumInsightsGeneration ?w2 ?u) =
              insights_triggered ?w2 @ [?u]"
    by simp
  have up: "user_permissions (triggerPremiumInsightsGeneration ?w2 ?u) = user_permissions ?w2"
    by simp
  show ?thesis
    unfolding s fst_conv snd_conv fc lg it up
    by (simp add: processed_response_def json_headers_def)
qed

theorem insights_failure_leaves_response_unchanged_witness:
  "fst (serve (world0\<lparr>fetch_result := Rejected\<rparr>) (post (Some ''secret'') event0)) =
     \<lparr>status = 200, headers = [(''Content-Type'', ''application/json'')],
      content = Some [(''status'', ''processed''), (''event_type'', ''INITIAL_PURCHASE''),
                      (''environment'', ''PRODUCTION''), (''user_id'', ''u1'')]\<rparr> \<and>
   insights_triggered
     (snd (serve (world0\<lparr>fetch_result := Rejected\<rparr>) (post (Some ''secret'') event0))) =
     [''u1''] \<and>
   fetch_calls
     (snd (serve (world0\<lparr>fetch_result := Rejected\<rparr>) (post (Some ''secret'') event0))) =
     [(''https://x.supabase.co/functions/v1/analyze-golf-performance'', ''Bearer k'', ''u1'',
       ''purchase_webhook'')] \<and>
   insights_log
     (snd (serve (world0\<lparr>fetch_result := Rejected\<rparr>) (post (Some ''secret'') event0))) =
     [CaughtError] \<and>
   fst (serve (world0\<lparr>fetch_result := Responded False True\<rparr>) (post (Some ''secret'') event0)) =
     \<lparr>status = 200, headers = [(''Content-Type'', ''application/json'')],
      content = Some [(''status'', ''processed''), (''event_type'', ''INITIAL_PURCHASE''),
                      (''environment'', ''PRODUCTION''), (''user_id'', ''u1'')]\<rparr> \<and>
   insights_log
     (snd (serve (world0\<lparr>fetch_result := Responded False True\<rparr>)
        (post (Some ''secret'') event0))) = [NotOkLogged] \<and>
   user_permissions
     (snd (serve (world0\<lparr>fetch_result := Responded False True\<rparr>) (post (Some ''secret'') event0)))
     (''u1'', ''product_a'') =
   Some \<lparr>profile_id = ''u1'', permission_id = ''product_a'', active = True,
         expires_at = Some (ISO 1893456000000), product_id = Some ''p1'',
         platform = Some ''app_store'', revenuecat_user_id = ''u1'',
         metadata = Some
           [(''transaction_id'', JString ''t1''),
            (''environment'', JString ''PRODUCTION''),
            (''updated_at'', JTime (ISO 1000)),
            (''status'', JString ''active''),
            (''source'', JString ''revenuecat_webhook''),
            (''event_processed_at'', JTime (ISO 1000))]\<rparr>"
proof -
  let ?req = "post (Some ''secret'') event0"
  have u: "SUPABASE_URL world0 = Some ''https://x.supabase.co''"
    "''https://x.supabase.co'' \<noteq> []"
    "SUPABASE_SERVICE_ROLE_KEY world0 = Some ''k''" "''k'' \<noteq> []"
    by (simp_all add: world0_def)
  have b: "payload ?req = Envelope (Some event0)" by (simp add: post_def)
  have c: "store event0 = Some ''APP_STORE''" by (simp add: event0_def)
  have d: "ev_type event0 \<in> {''INITIAL_PURCHASE'', ''RENEWAL'', ''NON_RENEWING_PURCHASE'',
           ''PRODUCT_CHANGE''}"
    by (simp add: event0_def)
  have f: "select_error world0 = None" "upsert_error world0 = None"
    by (simp_all add: world0_def)
  have x: "case expiration_at_ms event0 of None \<Rightarrow> True
           | Some ms \<Rightarrow> - 8640000000000000 \<le> ms \<and> ms \<le> 8640000000000000"
    by (simp add: event0_def)
  have n: "case user_permissions world0 (original_app_user_id event0, ''product_a'') of
             None \<Rightarrow> True | Some p \<Rightarrow> \<not> active p"
    by (simp add: world0_def)
  have i: "insights_triggered world0 = []" "fetch_calls world0 = []" "insights_log world0 = []"
    "user_permissions world0 = Map.empty" "now world0 0 = ISO 1000"
    "now world0 (Suc 0) = ISO 1000"
    by (simp_all add: world0_def clock_at_def)
  have v: "ev_type event0 = ''INITIAL_PURCHASE''" "environment event0 = ''PRODUCTION''"
    "ev_product_id event0 = ''p1''" "transaction_id event0 = ''t1''"
    "expiration_at_ms event0 = Some 1893456000000"
    by (simp_all add: event0_def)
  note h = insights_failure_leaves_response_unchanged
    [OF authenticated_post u b c d event0_key(2) f x n]
  show ?thesis
    using h [where f = Rejected] h [where f = "Responded False True"]
    by (simp add: event0_key i v lower_app_store)
qed

text \<open>
  When the read of the existing record succeeds, the trigger fires for a processed event
  exactly when the event is an activation of the premium entitlement and the key had no
  record or an inactive one.
\<close>

lemma cancellation_does_not_trigger [simp]:
  "insights_triggered (snd (handleSubscriptionCancellation w u ent x)) = insights_triggered w"
  by (simp add: handleSubscriptionCancellation_def select_permission_def upsert_permission_def
        Let_def split: sum.splits option.splits)

lemma expiration_does_not_trigger [simp]:
  "insights_triggered (snd (handleSubscriptionExpiration w u ent)) = insights_triggered w"
  by (simp add: handleSubscriptionExpiration_def select_permission_def upsert_permission_def
        Let_def split: option.splits)

lemma billing_issue_does_not_trigger [simp]:
  "insights_triggered (snd (handleBillingIssue w u ent)) = insights_triggered w"
  by (simp add: handleBillingIssue_def select_permission_def upsert_permission_def
        Let_def split: option.splits)

lemma activation_trigger:
  assumes "select_error w = None"
    and "fst (handleSubscriptionActivation w u ent pr pl x tr env) = None"
  shows "insights_triggered (snd (handleSubscriptionActivation w u ent pr pl x tr env)) =
           (if ent = ''product_a'' \<and>
               (case user_permissions w (u, ent) of None \<Rightarrow> True | Some p \<Rightarrow> \<not> active p)
            then insights_triggered w @ [u] else insights_triggered w)"
proof (cases "expirationString x")
  case (Inl err)
  with assms(2) show ?thesis by (simp add: handleSubscriptionActivation_def)
next
  case (Inr t)
  show ?thesis
  proof (cases "upsert_error w")
    case (Some err)
    with assms Inr show ?thesis
      by (simp add: handleSubscriptionActivation_def select_ok upsert_permission_def Let_def)
  next
    case None
    with assms(1) Inr show ?thesis
      by (simp add: handleSubscriptionActivation_def select_ok upsert_ok cong: conj_cong)
  qed
qed

lemma insights_trigger_when_read_succeeds:
  assumes "authenticated w req" and "client_configured w"
    and "payload req = Envelope (Some e)" and "store e = Some s"
    and "select_error w = None"
    and "status (fst (serve w req)) = 200"
  shows "(insights_triggered (snd (serve w req)) \<noteq> insights_triggered w) =
           (ev_type e \<in> {''INITIAL_PURCHASE'', ''RENEWAL'', ''NON_RENEWING_PURCHASE'',
                          ''PRODUCT_CHANGE''}
            \<and> entitlementId_of e = ''product_a''
            \<and> (case user_permissions w (original_app_user_id e, entitlementId_of e) of
                  None \<Rightarrow> True | Some p \<Rightarrow> \<not> active p))"
proof (cases "ev_type e \<in> {''INITIAL_PURCHASE'', ''RENEWAL'', ''NON_RENEWING_PURCHASE'',
                          ''PRODUCT_CHANGE''}")
  case True
  let ?h = "handleSubscriptionActivation w (original_app_user_id e)
               (entitlementId_of e) (ev_product_id e) (toLowerCase w s)
               (expirationDate (expiration_at_ms e)) (transaction_id e) (environment e)"
  have s: "serve w req = (case ?h of (Some err, w') \<Rightarrow> (server_error_response, w')
                                  | (None, w') \<Rightarrow> (processed_response e, w'))"
    by (simp add: serve_event [OF assms(1-4)] dispatch_activation [OF True])
  have ok: "fst ?h = None"
    using assms(6) unfolding s
    by (cases ?h) (auto simp: server_error_response_def split: option.splits)
  have "snd (serve w req) = snd ?h"
    unfolding s by (cases ?h) (auto split: option.splits)
  then show ?thesis
    using True activation_trigger [OF assms(5) ok] by (simp cong: conj_cong)
next
  case False
  then have "insights_triggered (snd (dispatch w e (toLowerCase w s))) = insights_triggered w"
    by (simp add: dispatch_def Let_def)
  moreover have "snd (serve w req) = snd (dispatch w e (toLowerCase w s))"
    by (simp add: serve_event [OF assms(1-4)] split: prod.splits option.splits)
  ultimately show ?thesis using False by simp
qed

text \<open>
  C1 at a failing read. \<open>handleSubscriptionActivation\<close> takes only \<open>data\<close> from the
  read of the existing record and never looks at its \<open>error\<close>, which the three other
  handlers check and rethrow. When that read fails, \<open>existingPermission\<close> is null and
  the activation counts as new: user u1 holds an active premium record, a RENEWAL
  arrives, the read reports an error and the write succeeds; the event is processed
  (200) and the trigger fires, although an active record existed before the write.
\<close>

theorem renewal_after_failed_read_triggers_insights:
  "map_option active
     (user_permissions (world1\<lparr>select_error := Some ''timeout''\<rparr>) (''u1'', ''product_a''))
     = Some True \<and>
   fst (serve (world1\<lparr>select_error := Some ''timeout''\<rparr>) (post (Some ''secret'') renewal0))
     = processed_response renewal0 \<and>
   insights_triggered
     (snd (serve (world1\<lparr>select_error := Some ''timeout''\<rparr>) (post (Some ''secret'') renewal0)))
     = [''u1'']"
  by code_simp

subsection \<open>Metadata\<close>

text \<open>
  C8, as the handlers have it. Take an event with a \<open>store\<close> string, sent with the right
  Authorization header to a deployment whose \<open>SUPABASE_URL\<close> and service-role key are
  set, and a key with an existing record that is read and written without error. For
  EXPIRATION and BILLING_ISSUE, and for CANCELLATION when \<open>expiration_at_ms\<close> is null or
  a valid date, the metadata written is a shallow merge: every field other than the three
  the handler sets keeps its prior value, and every prior key is still a key. An
  activation event (INITIAL_PURCHASE, RENEWAL, NON_RENEWING_PURCHASE, PRODUCT_CHANGE) whose
  \<open>expiration_at_ms\<close> is null or a valid date writes a fresh object of six fields
  instead, and reads no metadata.
\<close>

theorem metadata_is_merged_except_on_activation:
  assumes "authenticated w req" and "client_configured w"
    and "payload req = Envelope (Some e)" and "store e = Some s"
    and "select_error w = None" and "upsert_error w = None"
    and "user_permissions w (original_app_user_id e, entitlementId_of e) = Some p"
  shows "(ev_type e = ''CANCELLATION'' \<and>
          (case expiration_at_ms e of None \<Rightarrow> True
           | Some ms \<Rightarrow> - 8640000000000000 \<le> ms \<and> ms \<le> 8640000000000000) \<longrightarrow>
            (\<exists>r m. user_permissions (snd (serve w req))
                      (original_app_user_id e, entitlementId_of e) = Some r
               \<and> metadata r = Some m
               \<and> (\<forall>f. f \<notin> {''status'', ''cancelled_at'', ''source''} \<longrightarrow>
                      map_of m f = map_of (case metadata p of None \<Rightarrow> [] | Some m0 \<Rightarrow> m0) f)
               \<and> (\<forall>f. f \<in> dom (map_of (case metadata p of None \<Rightarrow> [] | Some m0 \<Rightarrow> m0))
                      \<longrightarrow> f \<in> dom (map_of m)))) \<and>
         (ev_type e = ''EXPIRATION'' \<longrightarrow>
            (\<exists>r m. user_permissions (snd (serve w req))
                      (original_app_user_id e, entitlementId_of e) = Some r
               \<and> metadata r = Some m
               \<and> (\<forall>f. f \<notin> {''status'', ''expired_at'', ''source''} \<longrightarrow>
                      map_of m f = map_of (case metadata p of None \<Rightarrow> [] | Some m0 \<Rightarrow> m0) f)
               \<and> (\<forall>f. f \<in> dom (map_of (case metadata p of None \<Rightarrow> [] | Some m0 \<Rightarrow> m0))
                      \<longrightarrow> f \<in> dom (map_of m)))) \<and>
         (ev_type e = ''BILLING_ISSUE'' \<longrightarrow>
            (\<exists>r m. user_permissions (snd (serve w req))
                      (original_app_user_id e, entitlementId_of e) = Some r
               \<and> metadata r = Some m
               \<and> (\<forall>f. f \<notin> {''billing_issue'', ''billing_issue_detected_at'', ''source''} \<longrightarrow>
                      map_of m f = map_of (case metadata p of None \<Rightarrow> [] | Some m0 \<Rightarrow> m0) f)
               \<and> (\<forall>f. f \<in> dom (map_of (case metadata p of None \<Rightarrow> [] | Some m0 \<Rightarrow> m0))
                      \<longrightarrow> f \<in> dom (map_of m)))) \<and>
         (ev_type e \<in> {''INITIAL_PURCHASE'', ''RENEWAL'', ''NON_RENEWING_PURCHASE'',
                        ''PRODUCT_CHANGE''} \<and>
          (case expiration_at_ms e of None \<Rightarrow> True
           | Some ms \<Rightarrow> - 8640000000000000 \<le> ms \<and> ms \<le> 8640000000000000) \<longrightarrow>
            (\<exists>r. user_permissions (snd (serve w req))
                    (original_app_user_id e, entitlementId_of e) = Some r
               \<and> metadata r = Some
                   [(''transaction_id'', JString (transaction_id e)),
                    (''environment'', JString (environment e)),
                    (''updated_at'', JTime (now w 0)),
                    (''status'', JString ''active''),
                    (''source'', JString ''revenuecat_webhook''),
                    (''event_processed_at'', JTime (now w 1))]))"
proof (intro conjI impI)
  assume c: "ev_type e = ''CANCELLATION'' \<and>
          (case expiration_at_ms e of None \<Rightarrow> True
           | Some ms \<Rightarrow> - 8640000000000000 \<le> ms \<and> ms \<le> 8640000000000000)"
  then have x: "case expiration_at_ms e of None \<Rightarrow> True
           | Some ms \<Rightarrow> - 8640000000000000 \<le> ms \<and> ms \<le> 8640000000000000"
    by (rule conjunct2)
  from c have "ev_type e = ''CANCELLATION''" by (rule conjunct1)
  then show "\<exists>r m. user_permissions (snd (serve w req))
                      (original_app_user_id e, entitlementId_of e) = Some r
               \<and> metadata r = Some m
               \<and> (\<forall>f. f \<notin> {''status'', ''cancelled_at'', ''source''} \<longrightarrow>
                      map_of m f = map_of (case metadata p of None \<Rightarrow> [] | Some m0 \<Rightarrow> m0) f)
               \<and> (\<forall>f. f \<in> dom (map_of (case metadata p of None \<Rightarrow> [] | Some m0 \<Rightarrow> m0))
                      \<longrightarrow> f \<in> dom (map_of m))"
    using assms(5-7)
    by (simp add: serve_event [OF assms(1-4)] dispatch_def Let_def
          handleSubscriptionCancellation_def expiration_written [OF x] select_ok upsert_ok
          update_conv' dom_def existingMetadata_def)
next
  assume "ev_type e = ''EXPIRATION''"
  then show "\<exists>r m. user_permissions (snd (serve w req))
                      (original_app_user_id e, entitlementId_of e) = Some r
               \<and> metadata r = Some m
               \<and> (\<forall>f. f \<notin> {''status'', ''expired_at'', ''source''} \<longrightarrow>
                      map_of m f = map_of (case metadata p of None \<Rightarrow> [] | Some m0 \<Rightarrow> m0) f)
               \<and> (\<forall>f. f \<in> dom (map_of (case metadata p of None \<Rightarrow> [] | Some m0 \<Rightarrow> m0))
                      \<longrightarrow> f \<in> dom (map_of m))"
    using assms(5-7)
    by (simp add: serve_event [OF assms(1-4)] dispatch_def Let_def
          handleSubscriptionExpiration_def select_ok upsert_ok update_conv' dom_def
          existingMetadata_def)
next
  assume "ev_type e = ''BILLING_ISSUE''"
  then show "\<exists>r m. user_permissions (snd (serve w req))
                      (original_app_user_id e, entitlementId_of e) = Some r
               \<and> metadata r = Some m
               \<and> (\<forall>f. f \<notin> {''billing_issue'', ''billing_issue_detected_at'', ''source''} \<longrightarrow>
                      map_of m f = map_of (case metadata p of None \<Rightarrow> [] | Some m0 \<Rightarrow> m0) f)
               \<and> (\<forall>f. f \<in> dom (map_of (case metadata p of None \<Rightarrow> [] | Some m0 \<Rightarrow> m0))
                      \<longrightarrow> f \<in> dom (map_of m))"
    using assms(5-7)
    by (simp add: serve_event [OF assms(1-4)] dispatch_def Let_def
          handleBillingIssue_def select_ok upsert_ok update_conv' dom_def
          existingMetadata_def)
next
  assume c: "ev_type e \<in> {''INITIAL_PURCHASE'', ''RENEWAL'', ''NON_RENEWING_PURCHASE'',
                        ''PRODUCT_CHANGE''} \<and>
          (case expiration_at_ms e of None \<Rightarrow> True
           | Some ms \<Rightarrow> - 8640000000000000 \<le> ms \<and> ms \<le> 8640000000000000)"
  from serve_activation_ok [OF assms(1-4) conjunct1 [OF c] assms(6) conjunct2 [OF c]]
  show "\<exists>r. user_permissions (snd (serve w req))
                    (original_app_user_id e, entitlementId_of e) = Some r
               \<and> metadata r = Some
                   [(''transaction_id'', JString (transaction_id e)),
                    (''environment'', JString (environment e)),
                    (''updated_at'', JTime (now w 0)),
                    (''status'', JString ''active''),
                    (''source'', JString ''revenuecat_webhook''),
                    (''event_processed_at'', JTime (now w 1))]"
    by auto
qed

theorem metadata_is_merged_except_on_activation_witness:
  "(\<exists>r m. user_permissions (snd (serve world1 (post (Some ''secret'') expiration0)))
             (''u1'', ''product_a'') = Some r
      \<and> metadata r = Some m
      \<and> map_of m ''transaction_id'' = Some (JString ''t0'')
      \<and> map_of m ''billing_issue'' = Some (JBool True)) \<and>
   (\<exists>r. user_permissions (snd (serve world1 (post (Some ''secret'') renewal0)))
           (''u1'', ''product_a'') = Some r
      \<and> metadata r = Some
          [(''transaction_id'', JString ''t1''),
           (''environment'', JString ''PRODUCTION''),
           (''updated_at'', JTime (ISO 1000)),
           (''status'', JString ''active''),
           (''source'', JString ''revenuecat_webhook''),
           (''event_processed_at'', JTime (ISO 1000))])"
proof -
  have f: "select_error world1 = None" "upsert_error world1 = None"
    by (simp_all add: world1_def world0_def)
  have first: "\<exists>r m. user_permissions (snd (serve world1 (post (Some ''secret'') expiration0)))
             (''u1'', ''product_a'') = Some r
      \<and> metadata r = Some m
      \<and> map_of m ''transaction_id'' = Some (JString ''t0'')
      \<and> map_of m ''billing_issue'' = Some (JBool True)"
  proof -
    let ?req = "post (Some ''secret'') expiration0"
    have b: "payload ?req = Envelope (Some expiration0)" by (simp add: post_def)
    have c: "store expiration0 = Some ''APP_STORE''" by (simp add: expiration0_def event0_def)
    have d: "ev_type expiration0 = ''EXPIRATION''" by (simp add: expiration0_def)
    have g: "user_permissions world1
               (original_app_user_id expiration0, entitlementId_of expiration0)
             = Some permission0"
      by (simp add: expiration0_key world1_def)
    have "\<exists>r m. user_permissions (snd (serve world1 ?req)) (''u1'', ''product_a'') = Some r
           \<and> metadata r = Some m
           \<and> (\<forall>f. f \<notin> {''status'', ''expired_at'', ''source''} \<longrightarrow>
                  map_of m f =
                  map_of [(''transaction_id'', JString ''t0''), (''billing_issue'', JBool True)] f)
           \<and> (\<forall>f. f \<in> dom (map_of
                    [(''transaction_id'', JString ''t0''), (''billing_issue'', JBool True)])
                  \<longrightarrow> f \<in> dom (map_of m))"
      using metadata_is_merged_except_on_activation
        [OF authenticated_post1 configured_world1 b c f g] d
      unfolding expiration0_key by (elim conjE) (simp add: permission0_def)
    then show ?thesis
      by (elim exE conjE) (intro exI conjI, assumption+, simp_all)
  qed
  have second: "\<exists>r. user_permissions (snd (serve world1 (post (Some ''secret'') renewal0)))
           (''u1'', ''product_a'') = Some r
      \<and> metadata r = Some
          [(''transaction_id'', JString ''t1''),
           (''environment'', JString ''PRODUCTION''),
           (''updated_at'', JTime (ISO 1000)),
           (''status'', JString ''active''),
           (''source'', JString ''revenuecat_webhook''),
           (''event_processed_at'', JTime (ISO 1000))]"
  proof -
    let ?req = "post (Some ''secret'') renewal0"
    have b: "payload ?req = Envelope (Some renewal0)" by (simp add: post_def)
    have c: "store renewal0 = Some ''APP_STORE''" by (simp add: renewal0_def event0_def)
    have d: "ev_type renewal0 \<in> {''INITIAL_PURCHASE'', ''RENEWAL'', ''NON_RENEWING_PURCHASE'',
                        ''PRODUCT_CHANGE''} \<and>
          (case expiration_at_ms renewal0 of None \<Rightarrow> True
           | Some ms \<Rightarrow> - 8640000000000000 \<le> ms \<and> ms \<le> 8640000000000000)"
      by (simp add: renewal0_def event0_def)
    have k: "original_app_user_id renewal0 = ''u1''" "entitlementId_of renewal0 = ''product_a''"
      by (simp_all add: renewal0_def event0_def entitlementId_of_def)
    have g: "user_permissions world1 (original_app_user_id renewal0, entitlementId_of renewal0)
             = Some permission0"
      by (simp add: k world1_def)
    have v: "transaction_id renewal0 = ''t1''" "environment renewal0 = ''PRODUCTION''"
      "now world1 0 = ISO 1000" "now world1 1 = ISO 1000"
      by (simp_all add: renewal0_def event0_def world1_def world0_def clock_at_def)
    have "ev_type renewal0 \<in> {''INITIAL_PURCHASE'', ''RENEWAL'', ''NON_RENEWING_PURCHASE'',
                        ''PRODUCT_CHANGE''} \<and>
          (case expiration_at_ms renewal0 of None \<Rightarrow> True
           | Some ms \<Rightarrow> - 8640000000000000 \<le> ms \<and> ms \<le> 8640000000000000) \<longrightarrow>
      (\<exists>r. user_permissions (snd (serve world1 ?req))
              (original_app_user_id renewal0, entitlementId_of renewal0) = Some r
         \<and> metadata r = Some
             [(''transaction_id'', JString (transaction_id renewal0)),
              (''environment'', JString (environment renewal0)),
              (''updated_at'', JTime (now world1 0)),
              (''status'', JString ''active''),
              (''source'', JString ''revenuecat_webhook''),
              (''event_processed_at'', JTime (now world1 1))])"
      using metadata_is_merged_except_on_activation
        [OF authenticated_post1 configured_world1 b c f g]
      by (elim conjE)
    from this [rule_format, OF d] show ?thesis
      unfolding k v .
  qed
  from first second show ?thesis by (rule conjI)
qed

text \<open>
  C8 as stated (prior metadata keys survive every event, activations included) fails: the
  record of u1 carries \<open>billing_issue\<close>, a RENEWAL arrives, and the metadata left has
  no such key.
\<close>

theorem activation_drops_prior_metadata:
  "map_option metadata (user_permissions world1 (''u1'', ''product_a'')) =
     Some (Some [(''transaction_id'', JString ''t0''), (''billing_issue'', JBool True)]) \<and>
   map_option metadata
     (user_permissions (snd (serve world1 (post (Some ''secret'') renewal0)))
        (''u1'', ''product_a'')) =
     Some (Some [(''transaction_id'', JString ''t1''),
                 (''environment'', JString ''PRODUCTION''),
                 (''updated_at'', JTime (ISO 1000)),
                 (''status'', JString ''active''),
                 (''source'', JString ''revenuecat_webhook''),
                 (''event_processed_at'', JTime (ISO 1000))])"
  by code_simp

end
